theory Spec2Isabelle
  imports Main
begin

section \<open>Machine integers and durations\<close>

text \<open>
  Go's \<^verbatim>\<open>time.Duration\<close> is an \<^verbatim>\<open>int64\<close> count of nanoseconds. Durations are modelled
  as \<open>int\<close>; \<open>wrap64\<close> is the two's complement wrap-around of an \<^verbatim>\<open>int64\<close> result and is
  written wherever the source multiplies or adds \<^verbatim>\<open>int64\<close> values.
\<close>

type_synonym Duration = int

definition MaxInt64 :: int where
  "MaxInt64 = 9223372036854775807"

definition MinInt64 :: int where
  "MinInt64 = - 9223372036854775808"

definition is_int64 :: "int \<Rightarrow> bool" where
  "is_int64 x \<longleftrightarrow> MinInt64 \<le> x \<and> x \<le> MaxInt64"

definition wrap64 :: "int \<Rightarrow> int" where
  "wrap64 x = (x + 9223372036854775808) mod 18446744073709551616 - 9223372036854775808"

text \<open>Go's \<^verbatim>\<open>/\<close> and \<^verbatim>\<open>%\<close> on integers truncate towards zero.\<close>

definition go_quot :: "int \<Rightarrow> int \<Rightarrow> int" where
  "go_quot a b = (if (a < 0) = (b < 0) then \<bar>a\<bar> div \<bar>b\<bar> else - (\<bar>a\<bar> div \<bar>b\<bar>))"

definition go_rem :: "int \<Rightarrow> int \<Rightarrow> int" where
  "go_rem a b = a - b * go_quot a b"

definition Minute :: Duration where
  "Minute = 60000000000"

definition Hour :: Duration where
  "Hour = 60 * Minute"

section \<open>Package expiry: \<^verbatim>\<open>internal/expiry/parser.go\<close>\<close>

subsection \<open>Library functions used by the parser\<close>

text \<open>
  Go strings are byte sequences; a \<open>string\<close> here is the list of bytes. The pattern
  \<^verbatim>\<open>^(\d+)([mhdw])$\<close> is an RE2 pattern: \<^verbatim>\<open>\d\<close> is an ASCII digit and \<^verbatim>\<open>$\<close> is the end of
  the text, so a text matches exactly when its last byte is one of the four unit letters and
  the bytes before it are one or more ASCII digits. \<open>durationPattern\<close> returns the two
  submatches, as \<^verbatim>\<open>FindStringSubmatch\<close> does (\<open>None\<close> for Go's \<^verbatim>\<open>nil\<close>).
\<close>

definition isDigit :: "char \<Rightarrow> bool" where
  "isDigit c \<longleftrightarrow> 48 \<le> (of_char c :: nat) \<and> (of_char c :: nat) \<le> 57"

definition durationPattern :: "string \<Rightarrow> (string \<times> string) option" where
  "durationPattern s =
     (if s \<noteq> [] \<and> butlast s \<noteq> [] \<and> list_all isDigit (butlast s) \<and> last s \<in> set ''mhdw''
      then Some (butlast s, [last s]) else None)"

text \<open>
  \<^verbatim>\<open>strconv.Atoi\<close> with a 64-bit \<^verbatim>\<open>int\<close>: an optional sign, then one or more decimal digits;
  a value outside the \<^verbatim>\<open>int64\<close> range is a range error.
\<close>

datatype NumError = ErrSyntax | ErrRange

definition decimal_value :: "string \<Rightarrow> nat" where
  "decimal_value ds = foldl (\<lambda>acc c. 10 * acc + ((of_char c :: nat) - 48)) 0 ds"

definition Atoi_digits :: "bool \<Rightarrow> string \<Rightarrow> NumError + int" where
  "Atoi_digits neg ds =
     (if ds = [] \<or> \<not> list_all isDigit ds then Inl ErrSyntax
      else let v = (if neg then - int (decimal_value ds) else int (decimal_value ds))
           in if v < MinInt64 \<or> MaxInt64 < v then Inl ErrRange else Inr v)"

fun Atoi :: "string \<Rightarrow> NumError + int" where
  "Atoi [] = Inl ErrSyntax"
| "Atoi (c # cs) =
     (if c = CHR ''-'' then Atoi_digits True cs
      else if c = CHR ''+'' then Atoi_digits False cs
      else Atoi_digits False (c # cs))"

text \<open>
  \<^verbatim>\<open>fmt.Sprintf("%d", n)\<close> for an \<^verbatim>\<open>int64\<close>: the decimal digits, most significant first,
  after a minus sign when \<open>n\<close> is negative.
\<close>

definition digit_char :: "nat \<Rightarrow> char" where
  "digit_char k = ''0123456789'' ! k"

function itoa_nat :: "nat \<Rightarrow> string" where
  "itoa_nat n =
     (if n < 10 then [digit_char n]
      else itoa_nat (n div 10) @ [digit_char (n mod 10)])"
  by pat_completeness auto
termination
  by (relation "measure id") auto

declare itoa_nat.simps [simp del]

definition Sprintf_d :: "int \<Rightarrow> string" where
  "Sprintf_d n = (if n < 0 then CHR ''-'' # itoa_nat (nat (- n)) else itoa_nat (nat n))"

subsection \<open>The parser\<close>

definition unitMultipliers :: "string \<rightharpoonup> Duration" where
  "unitMultipliers =
     map_of [(''m'', Minute), (''h'', Hour), (''d'', 24 * Hour), (''w'', 7 * 24 * Hour)]"

datatype parse_error =
    EmptyDurationString
  | InvalidDurationFormat string
  | InvalidDurationValue NumError
  | DurationNotPositive int
  | UnknownDurationUnit string

definition Parse :: "string \<Rightarrow> parse_error + Duration" where
  "Parse s =
     (if s = [] then Inl EmptyDurationString
      else case durationPattern s of
        None \<Rightarrow> Inl (InvalidDurationFormat s)
      | Some (m1, m2) \<Rightarrow>
          (case Atoi m1 of
             Inl err \<Rightarrow> Inl (InvalidDurationValue err)
           | Inr v \<Rightarrow>
               if v \<le> 0 then Inl (DurationNotPositive v)
               else (case unitMultipliers m2 of
                       None \<Rightarrow> Inl (UnknownDurationUnit m2)
                     | Some multiplier \<Rightarrow> Inr (wrap64 (v * multiplier)))))"

datatype validate_error = BelowMinimum Duration Duration | AboveMaximum Duration Duration

definition Validate :: "Duration \<Rightarrow> Duration \<Rightarrow> Duration \<Rightarrow> validate_error option" where
  "Validate d mn mx =
     (if d < mn then Some (BelowMinimum d mn)
      else if d > mx then Some (AboveMaximum d mx)
      else None)"

definition Format :: "Duration \<Rightarrow> string" where
  "Format d =
     (if d \<ge> 7 * 24 * Hour \<and> go_rem d (7 * 24 * Hour) = 0
        then Sprintf_d (go_quot d (7 * 24 * Hour)) @ ''w''
      else if d \<ge> 24 * Hour \<and> go_rem d (24 * Hour) = 0
        then Sprintf_d (go_quot d (24 * Hour)) @ ''d''
      else if d \<ge> Hour \<and> go_rem d Hour = 0
        then Sprintf_d (go_quot d Hour) @ ''h''
      else Sprintf_d (go_quot d Minute) @ ''m'')"

text \<open>
  The grammar of the specification, in its own words: an unsigned non-zero integer
  immediately followed by exactly one unit letter. \<open>unit_of\<close> is the duration the
  specification gives each letter.
\<close>

definition spec_grammar :: "string \<Rightarrow> bool" where
  "spec_grammar s \<longleftrightarrow>
     s \<noteq> [] \<and> butlast s \<noteq> [] \<and> list_all isDigit (butlast s) \<and> decimal_value (butlast s) \<noteq> 0
       \<and> last s \<in> {CHR ''m'', CHR ''h'', CHR ''d'', CHR ''w''}"

fun unit_of :: "char \<Rightarrow> Duration" where
  "unit_of c =
     (if c = CHR ''m'' then Minute
      else if c = CHR ''h'' then 60 * Minute
      else if c = CHR ''d'' then 24 * (60 * Minute)
      else if c = CHR ''w'' then 7 * (24 * (60 * Minute))
      else 0)"

text \<open>
  The duration a text of the grammar denotes in the specification: its integer times the
  unit of its letter, in unbounded integer arithmetic.
\<close>

definition spec_duration :: "string \<Rightarrow> int" where
  "spec_duration s = int (decimal_value (butlast s)) * unit_of (last s)"

section \<open>Package id\<close>

definition Length :: nat where
  "Length = 12"

definition Alphabet :: string where
  "Alphabet = ''0123456789ABCDEFGHIJKLMNOPQRSTUVWXYZabcdefghijklmnopqrstuvwxyz''"

text \<open>
  \<^verbatim>\<open>IsValid\<close> compares the byte length with \<^verbatim>\<open>Length\<close> and ranges over the runes of the
  string. A byte below 128 is its own rune; any other byte belongs to a rune of 128 or more
  (or decodes to U+FFFD), which is not base62. So testing each byte decides the same.
\<close>

definition isBase62 :: "char \<Rightarrow> bool" where
  "isBase62 c \<longleftrightarrow>
     ((of_char (CHR ''0'') :: nat) \<le> of_char c \<and> (of_char c :: nat) \<le> of_char (CHR ''9''))
   \<or> ((of_char (CHR ''A'') :: nat) \<le> of_char c \<and> (of_char c :: nat) \<le> of_char (CHR ''Z''))
   \<or> ((of_char (CHR ''a'') :: nat) \<le> of_char c \<and> (of_char c :: nat) \<le> of_char (CHR ''z''))"

definition IsValid :: "string \<Rightarrow> bool" where
  "IsValid sid = (if length sid \<noteq> Length then False else list_all isBase62 sid)"

datatype gen_error = RandomSourceFailed | InvalidParameters

text \<open>
  Modelled from the spec: \<^verbatim>\<open>gonanoid.Generate(alphabet, size)\<close>, the third-party function
  that \<^verbatim>\<open>Generator.Generate\<close> calls, is not part of the sources. The specification says that
  the allocator "produces a value drawn uniformly at random from alphabet^length using a
  cryptographically secure random source". The random source is a parameter: \<open>None\<close> when
  reading it fails, otherwise the draws, the \<open>i\<close>-th of which selects the \<open>i\<close>-th character.
  An empty alphabet or a length of zero is an error.
\<close>

definition gonanoid_Generate :: "string \<Rightarrow> nat \<Rightarrow> (nat \<Rightarrow> nat) option \<Rightarrow> gen_error + string" where
  "gonanoid_Generate alphabet n rnd =
     (if alphabet = [] \<or> n = 0 then Inl InvalidParameters
      else case rnd of
        None \<Rightarrow> Inl RandomSourceFailed
      | Some draw \<Rightarrow> Inr (map (\<lambda>i. alphabet ! (draw i mod length alphabet)) [0..<n]))"

definition Generate :: "(nat \<Rightarrow> nat) option \<Rightarrow> gen_error + string" where
  "Generate rnd = gonanoid_Generate Alphabet Length rnd"

section \<open>Package storage\<close>

text \<open>
  A \<^verbatim>\<open>time.Time\<close> instant is an integer count of nanoseconds since the epoch and
  \<^verbatim>\<open>Time.Add\<close> is addition. Content is a list of bytes.
\<close>

type_synonym Time = int
type_synonym bytes = string

record Snippet =
  ID :: string
  Content :: bytes
  ExpiresAt :: Time
  CreatedAt :: Time

text \<open>
  The \<^verbatim>\<open>snippets\<close> table of \<^verbatim>\<open>migrations/001_create_snippets.sql\<close>: \<^verbatim>\<open>id\<close> is the primary key,
  so the table is a map from identifiers to the other three columns. \<open>NOW\<close> is the reading
  of the database clock in the statement being executed; \<open>reachable\<close> is false when the
  pool cannot run the statement (connection failure, timeout). The two timestamp columns
  are \<^verbatim>\<open>TIMESTAMPTZ\<close>, of microsecond resolution: \<open>timestamptz\<close> is the conversion of a
  \<^verbatim>\<open>time.Time\<close> argument to the column's value, a parameter of the database.
\<close>

record snippet_row =
  content :: bytes
  expires_at :: Time
  created_at :: Time

record Database =
  snippets :: "string \<rightharpoonup> snippet_row"
  NOW :: Time
  reachable :: bool
  timestamptz :: "Time \<Rightarrow> Time"

datatype store_error = PoolFailure | UniqueViolation | ValueTooLong

text \<open>
  \<^verbatim>\<open>INSERT INTO snippets (id, content, expires_at, created_at) VALUES ($1, $2, $3, NOW())
  RETURNING created_at\<close>: the insert fails when the key is present (whether or not that row has
  expired) or longer than the \<^verbatim>\<open>VARCHAR(12)\<close> column. The returned \<^verbatim>\<open>Snippet\<close> carries the
  \<^verbatim>\<open>expiresAt\<close> argument itself and the \<^verbatim>\<open>created_at\<close> the statement returns.
\<close>

definition Create ::
  "Database \<Rightarrow> string \<Rightarrow> bytes \<Rightarrow> Time \<Rightarrow> (store_error + Snippet) \<times> Database" where
  "Create db sid c expiresAt =
     (if \<not> reachable db then (Inl PoolFailure, db)
      else if 12 < length sid then (Inl ValueTooLong, db)
      else if snippets db sid \<noteq> None then (Inl UniqueViolation, db)
      else (Inr \<lparr>ID = sid, Content = c, ExpiresAt = expiresAt, CreatedAt = NOW db\<rparr>,
            db\<lparr>snippets := (snippets db)(sid \<mapsto>
                   \<lparr>content = c, expires_at = timestamptz db expiresAt,
                    created_at = NOW db\<rparr>)\<rparr>))"

text \<open>
  \<^verbatim>\<open>SELECT id, content, expires_at, created_at FROM snippets WHERE id = $1 AND expires_at > NOW()\<close>;
  no row is \<^verbatim>\<open>(nil, nil)\<close>, here \<open>Inr None\<close>.
\<close>

definition Get :: "Database \<Rightarrow> string \<Rightarrow> store_error + Snippet option" where
  "Get db sid =
     (if \<not> reachable db then Inl PoolFailure
      else case snippets db sid of
        None \<Rightarrow> Inr None
      | Some r \<Rightarrow>
          if expires_at r > NOW db
          then Inr (Some \<lparr>ID = sid, Content = content r, ExpiresAt = expires_at r,
                          CreatedAt = created_at r\<rparr>)
          else Inr None)"

section \<open>Package api: the handlers\<close>

record Config =
  BaseURL :: string
  MaxContentSize :: int
  DefaultExpiry :: Duration
  MinExpiry :: Duration
  MaxExpiry :: Duration
  CleanupInterval :: Duration

text \<open>
  \<^verbatim>\<open>Config.Validate\<close>, for the fields above; it has no check of \<^verbatim>\<open>CleanupInterval\<close>.
\<close>

definition Config_Validate :: "Config \<Rightarrow> bool" where
  "Config_Validate c \<longleftrightarrow>
     \<not> MaxContentSize c < 1 \<and> \<not> MinExpiry c > MaxExpiry c
       \<and> \<not> (DefaultExpiry c < MinExpiry c \<or> DefaultExpiry c > MaxExpiry c)"

datatype message =
    Text string
  | ParseErrorText parse_error
  | ValidateErrorText validate_error

datatype response_body =
    ErrorResponse string message
  | CreateResponse string string Time
  | RawContent bytes

record Response =
  statusCode :: nat
  headers :: "(string \<times> string) list"
  body :: response_body

definition writeError :: "nat \<Rightarrow> string \<Rightarrow> message \<Rightarrow> Response" where
  "writeError status code msg =
     \<lparr>statusCode = status, headers = [(''Content-Type'', ''application/json'')],
      body = ErrorResponse code msg\<rparr>"

definition notFound :: Response where
  "notFound = writeError 404 ''NOT_FOUND'' (Text ''snippet not found or expired'')"

definition payloadTooLarge :: "int \<Rightarrow> Response" where
  "payloadTooLarge maxSize =
     writeError 413 ''PAYLOAD_TOO_LARGE'' (Text ''content exceeds maximum size'')"

definition internalError :: Response where
  "internalError = writeError 500 ''INTERNAL_ERROR'' (Text ''an internal error occurred'')"

definition invalidExpiry :: "message \<Rightarrow> Response" where
  "invalidExpiry msg = writeError 400 ''INVALID_EXPIRY'' msg"

definition emptyContent :: Response where
  "emptyContent = writeError 400 ''EMPTY_CONTENT'' (Text ''content cannot be empty'')"

definition invalidID :: Response where
  "invalidID = writeError 400 ''INVALID_ID'' (Text ''invalid snippet ID format'')"

text \<open>
  A create request: the \<^verbatim>\<open>expiry\<close> query parameter (empty when absent) and the body, a
  stream that delivers \<open>body_bytes\<close> and then ends, or fails instead of ending when
  \<open>body_fails\<close> is set.
\<close>

record CreateRequest =
  expiry_query :: string
  body_bytes :: bytes
  body_fails :: bool

text \<open>
  \<^verbatim>\<open>io.ReadAll(io.LimitReader(r.Body, n))\<close>: at most \<open>n\<close> bytes are taken from the body
  (none when \<open>n \<le> 0\<close>); the failure of the stream is met only if the stream ends before
  \<open>n\<close> bytes.
\<close>

definition ReadAll_LimitReader :: "int \<Rightarrow> CreateRequest \<Rightarrow> unit + bytes" where
  "ReadAll_LimitReader n r =
     (if body_fails r \<and> int (length (body_bytes r)) < n then Inl ()
      else Inr (take (nat n) (body_bytes r)))"

text \<open>The calls a handler makes, in order; \<open>ReadBody k\<close> took \<open>k\<close> bytes from the body.\<close>

datatype call =
    ReadBody nat
  | GenerateID
  | RepoCreate string bytes Time
  | RepoGet string

text \<open>
  \<^verbatim>\<open>handleCreate\<close>. \<open>rnd\<close> is the random source of the identifier generator, \<open>now\<close> the
  reading of \<^verbatim>\<open>time.Now()\<close> in the handler. The result is the response, the database after
  the request and the calls made.
\<close>

definition resolve_expiry :: "Config \<Rightarrow> string \<Rightarrow> message + Duration" where
  "resolve_expiry cfg expiryStr =
     (if expiryStr \<noteq> [] then
        (case Parse expiryStr of
           Inl err \<Rightarrow> Inl (ParseErrorText err)
         | Inr parsed \<Rightarrow>
             (case Validate parsed (MinExpiry cfg) (MaxExpiry cfg) of
                Some err \<Rightarrow> Inl (ValidateErrorText err)
              | None \<Rightarrow> Inr parsed))
      else Inr (DefaultExpiry cfg))"

definition handleCreate ::
  "Config \<Rightarrow> (nat \<Rightarrow> nat) option \<Rightarrow> Time \<Rightarrow> Database \<Rightarrow> CreateRequest
     \<Rightarrow> Response \<times> Database \<times> call list" where
  "handleCreate cfg rnd now db r =
     (case resolve_expiry cfg (expiry_query r) of
        Inl msg \<Rightarrow> (invalidExpiry msg, db, [])
      | Inr expiryDuration \<Rightarrow>
          (case ReadAll_LimitReader (wrap64 (MaxContentSize cfg + 1)) r of
             Inl err \<Rightarrow> (internalError, db, [ReadBody (length (body_bytes r))])
           | Inr c \<Rightarrow>
               if int (length c) > MaxContentSize cfg
                 then (payloadTooLarge (MaxContentSize cfg), db, [ReadBody (length c)])
               else if length c = 0
                 then (emptyContent, db, [ReadBody (length c)])
               else (case Generate rnd of
                  Inl err \<Rightarrow> (internalError, db, [ReadBody (length c), GenerateID])
                | Inr snippetID \<Rightarrow>
                    let expiresAt = now + expiryDuration in
                    (case Create db snippetID c expiresAt of
                       (Inl err, db') \<Rightarrow>
                         (internalError, db',
                          [ReadBody (length c), GenerateID, RepoCreate snippetID c expiresAt])
                     | (Inr snippet, db') \<Rightarrow>
                         (\<lparr>statusCode = 201,
                           headers = [(''Content-Type'', ''application/json'')],
                           body = CreateResponse (ID snippet) (BaseURL cfg @ ''/'' @ ID snippet)
                                    (ExpiresAt snippet)\<rparr>,
                          db',
                          [ReadBody (length c), GenerateID, RepoCreate snippetID c expiresAt])))))"

definition handleGet :: "Database \<Rightarrow> string \<Rightarrow> Response \<times> call list" where
  "handleGet db snippetID =
     (if \<not> IsValid snippetID then (invalidID, [])
      else case Get db snippetID of
        Inl err \<Rightarrow> (internalError, [RepoGet snippetID])
      | Inr None \<Rightarrow> (notFound, [RepoGet snippetID])
      | Inr (Some snippet) \<Rightarrow>
          (\<lparr>statusCode = 200,
            headers = [(''Content-Type'', ''text/plain; charset=utf-8''),
                       (''X-Content-Type-Options'', ''nosniff'')],
            body = RawContent (Content snippet)\<rparr>,
           [RepoGet snippetID]))"

section \<open>Package api: the cleanup worker\<close>

text \<open>
  The two channels of a \<^verbatim>\<open>CleanupWorker\<close> carry no values and are never sent on: a receive
  blocks while the channel is open and completes once it is closed. Closing a closed
  channel panics; \<open>close_chan\<close> returns \<open>None\<close> for the panic.
\<close>

datatype chan = Open | Closed

fun close_chan :: "chan \<Rightarrow> chan option" where
  "close_chan Open = Some Closed"
| "close_chan Closed = None"

datatype log_entry =
    Info string
  | InfoCount string int
  | Error string store_error

text \<open>
  Where a goroutine that executes \<^verbatim>\<open>run\<close> stands: spawned, before
  \<^verbatim>\<open>time.NewTicker(w.interval)\<close> and the startup \<^verbatim>\<open>w.cleanup()\<close>; blocked in the \<^verbatim>\<open>select\<close>, on
  a ticker of the given period; returned, with the deferred \<^verbatim>\<open>ticker.Stop()\<close> and
  \<^verbatim>\<open>close(w.doneCh)\<close> done; or panicked.
\<close>

datatype run_state = Startup | InSelect Duration | Exited | RunPanicked

text \<open>
  Where the caller of \<^verbatim>\<open>Stop\<close> stands: outside \<^verbatim>\<open>Stop\<close>, after \<open>k\<close> calls have returned;
  inside a call, past \<^verbatim>\<open>close(w.stopCh)\<close> and blocked in \<^verbatim>\<open><-w.doneCh\<close>; or panicked.
\<close>

datatype stop_state = Outside nat | Blocked nat | StopPanicked nat

text \<open>
  A worker with the goroutines started on it, one entry of \<open>runners\<close> for each call of
  \<^verbatim>\<open>Start\<close>, in the order of the calls.
\<close>

record Worker =
  interval :: Duration
  stopCh :: chan
  doneCh :: chan
  ctxDone :: bool
  runners :: "run_state list"
  stopper :: stop_state
  sweeps :: nat
  logged :: "log_entry list"

definition NewCleanupWorker :: "Duration \<Rightarrow> Worker" where
  "NewCleanupWorker d =
     \<lparr>interval = d, stopCh = Open, doneCh = Open, ctxDone = False, runners = [],
      stopper = Outside 0, sweeps = 0, logged = []\<rparr>"

text \<open>
  The repository is an interface: \<open>repo k\<close> is what the \<open>k\<close>-th call of
  \<^verbatim>\<open>DeleteExpired\<close> returns. \<open>sweeps\<close> counts the calls.
\<close>

type_synonym Repository = "nat \<Rightarrow> store_error + int"

definition cleanup :: "Repository \<Rightarrow> Worker \<Rightarrow> Worker" where
  "cleanup repo w =
     (case repo (sweeps w) of
        Inl err \<Rightarrow>
          w\<lparr>sweeps := Suc (sweeps w),
            logged := logged w @ [Error ''failed to delete expired snippets'' err]\<rparr>
      | Inr n \<Rightarrow>
          if n > 0
          then w\<lparr>sweeps := Suc (sweeps w),
                 logged := logged w @ [InfoCount ''cleanup completed'' n]\<rparr>
          else w\<lparr>sweeps := Suc (sweeps w)\<rparr>)"

text \<open>
  \<^verbatim>\<open>run\<close> from its entry to the \<^verbatim>\<open>select\<close>, for the goroutine \<open>i\<close>. \<^verbatim>\<open>close(w.doneCh)\<close> is
  deferred first. \<^verbatim>\<open>time.NewTicker\<close> panics when the interval is not positive: the deferred
  close runs (and panics in turn if the channel is closed already), nothing is swept and
  the goroutine ends panicked. Otherwise the startup sweep runs and the goroutine reaches
  the \<^verbatim>\<open>select\<close> with a ticker of period \<^verbatim>\<open>w.interval\<close>.
\<close>

definition run_startup :: "Repository \<Rightarrow> nat \<Rightarrow> Worker \<Rightarrow> Worker" where
  "run_startup repo i w =
     (if interval w \<le> 0
      then w\<lparr>doneCh := Closed, runners := (runners w)[i := RunPanicked]\<rparr>
      else (cleanup repo w)\<lparr>runners := (runners w)[i := InSelect (interval w)]\<rparr>)"

text \<open>
  The return of \<^verbatim>\<open>run\<close> for the goroutine \<open>i\<close>: the deferred \<^verbatim>\<open>close(w.doneCh)\<close> runs last and
  panics if another goroutine has closed the channel.
\<close>

definition run_return :: "string \<Rightarrow> nat \<Rightarrow> Worker \<Rightarrow> Worker" where
  "run_return msg i w =
     (case close_chan (doneCh w) of
        None \<Rightarrow> w\<lparr>logged := logged w @ [Info msg], runners := (runners w)[i := RunPanicked]\<rparr>
      | Some c \<Rightarrow>
          w\<lparr>logged := logged w @ [Info msg], doneCh := c, runners := (runners w)[i := Exited]\<rparr>)"

text \<open>
  The steps of the worker goroutines, of the caller of \<^verbatim>\<open>Stop\<close> and of the environment.
  \<open>Start\<close> is \<^verbatim>\<open>go w.run(ctx)\<close> and adds a goroutine; \<open>RunStartup i\<close> is \<^verbatim>\<open>run\<close> up to the
  \<^verbatim>\<open>select\<close> in goroutine \<open>i\<close>; \<open>SelectCtxDone i\<close>, \<open>SelectStop i\<close> and \<open>SelectTick i\<close> are the
  three cases of its \<^verbatim>\<open>select\<close>, each possible only when its channel is ready (a tick is
  ready when the ticker has delivered one, which the schedule decides); \<open>CancelCtx\<close> cancels
  the context; \<open>StopClose\<close> enters \<^verbatim>\<open>Stop\<close> and closes \<^verbatim>\<open>stopCh\<close>; \<open>StopReturn\<close> completes the
  receive from \<^verbatim>\<open>doneCh\<close> and returns. A step that cannot be taken in a state (a blocked
  receive, a goroutine that is elsewhere or has panicked) is \<open>None\<close>. A panic ends the
  process after the deferred calls of the panicking goroutine; the other goroutines run
  until then, so the panic is recorded in the state and the others may still step.
\<close>

datatype action =
    Start
  | RunStartup nat
  | SelectCtxDone nat
  | SelectStop nat
  | SelectTick nat
  | CancelCtx
  | StopClose
  | StopReturn

fun in_select :: "run_state list \<Rightarrow> nat \<Rightarrow> bool" where
  "in_select rs i = (i < length rs \<and> (case rs ! i of InSelect p \<Rightarrow> True | _ \<Rightarrow> False))"

fun step :: "Repository \<Rightarrow> action \<Rightarrow> Worker \<Rightarrow> Worker option" where
  "step repo a w =
     (case a of
        Start \<Rightarrow> Some (w\<lparr>runners := runners w @ [Startup]\<rparr>)
      | RunStartup i \<Rightarrow>
          if i < length (runners w) \<and> runners w ! i = Startup
          then Some (run_startup repo i w) else None
      | SelectCtxDone i \<Rightarrow>
          if in_select (runners w) i \<and> ctxDone w
          then Some (run_return ''cleanup worker stopping due to context cancellation'' i w)
          else None
      | SelectStop i \<Rightarrow>
          if in_select (runners w) i \<and> stopCh w = Closed
          then Some (run_return ''cleanup worker stopping'' i w)
          else None
      | SelectTick i \<Rightarrow> if in_select (runners w) i then Some (cleanup repo w) else None
      | CancelCtx \<Rightarrow> Some (w\<lparr>ctxDone := True\<rparr>)
      | StopClose \<Rightarrow>
          (case stopper w of
             Outside k \<Rightarrow>
               (case close_chan (stopCh w) of
                  None \<Rightarrow> Some (w\<lparr>stopper := StopPanicked k\<rparr>)
                | Some c \<Rightarrow> Some (w\<lparr>stopCh := c, stopper := Blocked k\<rparr>))
           | _ \<Rightarrow> None)
      | StopReturn \<Rightarrow>
          (case stopper w of
             Blocked k \<Rightarrow> if doneCh w = Closed then Some (w\<lparr>stopper := Outside (Suc k)\<rparr>) else None
           | _ \<Rightarrow> None))"

declare step.simps [simp del]

fun exec :: "Repository \<Rightarrow> action list \<Rightarrow> Worker \<Rightarrow> Worker option" where
  "exec repo [] w = Some w"
| "exec repo (a # as) w = (case step repo a w of None \<Rightarrow> None | Some w' \<Rightarrow> exec repo as w')"

text \<open>
  Invariants of the executions of a new worker with interval \<open>d\<close>, \<open>acts\<close> being the steps
  taken so far: of every execution, and of those that call \<^verbatim>\<open>Start\<close> at most once with a
  positive interval.
\<close>

definition worker_inv :: "Duration \<Rightarrow> action list \<Rightarrow> Worker \<Rightarrow> bool" where
  "worker_inv d acts w \<longleftrightarrow>
     interval w = d
   \<and> length (runners w) = count_list acts Start
   \<and> (stopCh w = Closed \<longleftrightarrow> stopper w \<noteq> Outside 0)
   \<and> ((\<exists>k. stopper w = Outside (Suc k)) \<longrightarrow> doneCh w = Closed)"


section \<open>Concrete inputs\<close>

text \<open>
  A configuration with a maximum content size of five bytes, one with the largest
  \<^verbatim>\<open>int64\<close> as maximum and one with a cleanup interval of zero, a random source, databases
  whose clock reads 1005 (empty, and holding one live and one expired entry), and a request
  with the five-byte body \<^verbatim>\<open>hello\<close>.
\<close>

definition example_cfg :: Config where
  "example_cfg =
     \<lparr>BaseURL = ''http://localhost:8080'', MaxContentSize = 5, DefaultExpiry = 72 * Hour,
      MinExpiry = 10 * Minute, MaxExpiry = 30 * 24 * Hour, CleanupInterval = 5 * Minute\<rparr>"

definition huge_cfg :: Config where
  "huge_cfg = example_cfg\<lparr>MaxContentSize := MaxInt64\<rparr>"


definition microseconds :: "Time \<Rightarrow> Time" where
  "microseconds t = t - t mod 1000"

definition example_rnd :: "(nat \<Rightarrow> nat) option" where
  "example_rnd = Some (\<lambda>i. 7 * i)"

definition empty_db :: Database where
  "empty_db = \<lparr>snippets = Map.empty, NOW = 1005, reachable = True, timestamptz = microseconds\<rparr>"

definition example_db :: Database where
  "example_db =
     \<lparr>snippets = [''07ELSZgnu18F'' \<mapsto> \<lparr>content = ''old'', expires_at = 9000, created_at = 0\<rparr>,
                  ''abcdefghijkl'' \<mapsto> \<lparr>content = ''gone'', expires_at = 1000, created_at = 0\<rparr>],
      NOW = 1005, reachable = True, timestamptz = microseconds\<rparr>"

definition hello_request :: "string \<Rightarrow> CreateRequest" where
  "hello_request e = \<lparr>expiry_query = e, body_bytes = ''hello'', body_fails = False\<rparr>"

definition failing_repo :: Repository where
  "failing_repo k = (if k = 1 then Inl PoolFailure else Inr (int k))"

section \<open>The expiry parser: proofs\<close>

lemma wrap64_id: "is_int64 x \<Longrightarrow> wrap64 x = x"
  by (simp add: is_int64_def wrap64_def MinInt64_def MaxInt64_def)

lemma of_char_digit: "k < 10 \<Longrightarrow> (of_char (digit_char k) :: nat) = 48 + k"
proof -
  assume "k < 10"
  then have "k \<in> {0, 1, 2, 3, 4, 5, 6, 7, 8, 9}" by auto
  then show ?thesis by (auto simp: digit_char_def)
qed

lemma isDigit_char_of: "k < 10 \<Longrightarrow> isDigit (digit_char k)"
  by (simp add: isDigit_def of_char_digit)

lemma itoa_nat_nonempty: "itoa_nat n \<noteq> []"
  by (subst itoa_nat.simps) simp

lemma itoa_nat_digits: "list_all isDigit (itoa_nat n)"
proof (induction n rule: itoa_nat.induct)
  case (1 n)
  show ?case
  proof (cases "n < 10")
    case True
    then show ?thesis by (subst itoa_nat.simps) (simp add: isDigit_char_of)
  next
    case False
    then have "list_all isDigit (itoa_nat (n div 10))" using "1.IH" by simp
    moreover have "isDigit (digit_char (n mod 10))" by (rule isDigit_char_of) simp
    ultimately show ?thesis using False by (subst itoa_nat.simps) simp
  qed
qed

lemma decimal_value_snoc:
  "decimal_value (ds @ [c]) = 10 * decimal_value ds + ((of_char c :: nat) - 48)"
  by (simp add: decimal_value_def)

lemma decimal_value_single: "decimal_value [c] = (of_char c :: nat) - 48"
  by (simp add: decimal_value_def)

lemma decimal_value_itoa: "decimal_value (itoa_nat n) = n"
proof (induction n rule: itoa_nat.induct)
  case (1 n)
  show ?case
  proof (cases "n < 10")
    case True
    then show ?thesis
      by (subst itoa_nat.simps) (simp add: decimal_value_single of_char_digit)
  next
    case False
    then have ih: "decimal_value (itoa_nat (n div 10)) = n div 10" using "1.IH" by simp
    have "(of_char (digit_char (n mod 10)) :: nat) = 48 + n mod 10"
      by (rule of_char_digit) simp
    then show ?thesis using False ih
      by (subst itoa_nat.simps) (simp add: decimal_value_snoc)
  qed
qed

lemma Atoi_digit_string:
  assumes "ds \<noteq> []" "list_all isDigit ds"
  shows "Atoi ds = Atoi_digits False ds"
proof -
  obtain c cs where ds: "ds = c # cs" using assms(1) by (cases ds) auto
  then have "isDigit c" using assms(2) by simp
  then have "c \<noteq> CHR ''-''" "c \<noteq> CHR ''+''" by (auto simp: isDigit_def)
  then show ?thesis by (simp add: ds)
qed

lemma unitMultipliers_unit:
  "u \<in> set ''mhdw'' \<Longrightarrow> unitMultipliers [u] = Some (unit_of u)"
  by (auto simp: unitMultipliers_def Hour_def)

lemma durationPattern_snoc:
  "ds \<noteq> [] \<Longrightarrow> list_all isDigit ds \<Longrightarrow> u \<in> set ''mhdw'' \<Longrightarrow>
   durationPattern (ds @ [u]) = Some (ds, [u])"
  by (simp add: durationPattern_def)

lemma Parse_digits_unit:
  assumes "ds \<noteq> []" "list_all isDigit ds" "u \<in> set ''mhdw''"
  shows "Parse (ds @ [u]) =
     (if MaxInt64 < int (decimal_value ds) then Inl (InvalidDurationValue ErrRange)
      else if decimal_value ds = 0 then Inl (DurationNotPositive 0)
      else Inr (wrap64 (int (decimal_value ds) * unit_of u)))"
proof -
  have a: "Atoi ds = (if MaxInt64 < int (decimal_value ds) then Inl ErrRange else Inr (int (decimal_value ds)))"
    using assms by (simp add: Atoi_digit_string Atoi_digits_def MinInt64_def)
  show ?thesis
    using assms
    by (simp add: Parse_def durationPattern_snoc a unitMultipliers_unit del: unit_of.simps)
qed

lemma spec_grammar_iff:
  "spec_grammar s \<longleftrightarrow>
     (\<exists>ds u. s = ds @ [u] \<and> ds \<noteq> [] \<and> list_all isDigit ds \<and> decimal_value ds \<noteq> 0
        \<and> u \<in> {CHR ''m'', CHR ''h'', CHR ''d'', CHR ''w''})"
proof
  assume g: "spec_grammar s"
  then have "s = butlast s @ [last s]" by (simp add: spec_grammar_def)
  with g show "\<exists>ds u. s = ds @ [u] \<and> ds \<noteq> [] \<and> list_all isDigit ds \<and> decimal_value ds \<noteq> 0
        \<and> u \<in> {CHR ''m'', CHR ''h'', CHR ''d'', CHR ''w''}"
    unfolding spec_grammar_def by blast
next
  assume "\<exists>ds u. s = ds @ [u] \<and> ds \<noteq> [] \<and> list_all isDigit ds \<and> decimal_value ds \<noteq> 0
        \<and> u \<in> {CHR ''m'', CHR ''h'', CHR ''d'', CHR ''w''}"
  then show "spec_grammar s" by (auto simp: spec_grammar_def)
qed

lemma Minute_pos: "0 < Minute"
  by (simp add: Minute_def)

lemma unit_of_pos: "u \<in> set ''mhdw'' \<Longrightarrow> 1 \<le> unit_of u"
  using Minute_pos by auto

lemma Parse_Inr_grammar:
  assumes "Parse s = Inr d"
  shows "spec_grammar s"
proof -
  from assms have ne: "s \<noteq> []" by (auto simp: Parse_def)
  from assms ne obtain m1 m2 where m: "durationPattern s = Some (m1, m2)"
    by (cases "durationPattern s") (auto simp: Parse_def)
  then have pat: "butlast s \<noteq> []" "list_all isDigit (butlast s)" "last s \<in> set ''mhdw''"
    and m1: "m1 = butlast s"
    by (auto simp: durationPattern_def split: if_splits)
  from assms ne m obtain v where v: "Atoi m1 = Inr v" "0 < v"
    by (cases "Atoi m1") (auto simp: Parse_def split: if_splits)
  have "Atoi m1 = Atoi_digits False m1" using pat m1 by (simp add: Atoi_digit_string)
  with v have "decimal_value m1 \<noteq> 0"
    by (auto simp: Atoi_digits_def Let_def split: if_splits)
  with ne pat m1 show ?thesis by (simp add: spec_grammar_def)
qed

lemma go_quot_nonneg: "0 \<le> a \<Longrightarrow> 0 < b \<Longrightarrow> go_quot a b = a div b"
  by (simp add: go_quot_def)

lemma go_rem_nonneg: "0 \<le> a \<Longrightarrow> 0 < b \<Longrightarrow> go_rem a b = a mod b"
  by (simp add: go_rem_def go_quot_nonneg minus_mult_div_eq_mod)

lemma go_quot_nonpos: "a \<le> 0 \<Longrightarrow> 0 < b \<Longrightarrow> go_quot a b \<le> 0"
  by (cases "a = 0") (simp_all add: go_quot_def pos_imp_zdiv_nonneg_iff)

lemma minus_not_digit: "\<not> isDigit (CHR ''-'')"
  by (simp add: isDigit_def)

lemma Parse_Sprintf_Inr:
  assumes u: "u \<in> set ''mhdw''"
  shows "Parse (Sprintf_d q @ [u]) = Inr d \<longleftrightarrow>
           0 < q \<and> q \<le> MaxInt64 \<and> d = wrap64 (q * unit_of u)"
proof (cases "q < 0")
  case True
  have "durationPattern ((CHR ''-'' # itoa_nat (nat (- q))) @ [u]) = None"
    by (simp add: durationPattern_def butlast_append minus_not_digit)
  then show ?thesis using True by (simp add: Sprintf_d_def Parse_def)
next
  case False
  then have s: "Sprintf_d q = itoa_nat (nat q)" by (simp add: Sprintf_d_def)
  have "Parse (itoa_nat (nat q) @ [u]) =
     (if MaxInt64 < int (decimal_value (itoa_nat (nat q))) then Inl (InvalidDurationValue ErrRange)
      else if decimal_value (itoa_nat (nat q)) = 0 then Inl (DurationNotPositive 0)
      else Inr (wrap64 (int (decimal_value (itoa_nat (nat q))) * unit_of u)))"
    using itoa_nat_nonempty itoa_nat_digits u by (rule Parse_digits_unit)
  then show ?thesis using False
    by (auto simp: s decimal_value_itoa simp del: unit_of.simps)
qed

lemma Parse_Sprintf_exact:
  assumes u: "u \<in> set ''mhdw''" and d: "0 < d" "d \<le> MaxInt64" and q: "q * unit_of u = d"
  shows "Parse (Sprintf_d q @ [u]) = Inr d"
proof -
  have pos: "1 \<le> unit_of u" using u by (rule unit_of_pos)
  have qpos: "0 < q"
  proof (rule ccontr)
    assume "\<not> 0 < q"
    then have "q * unit_of u \<le> 0" using pos by (simp add: mult_le_0_iff)
    with q d show False by simp
  qed
  have "q * 1 \<le> q * unit_of u" using pos qpos by (intro mult_left_mono) simp_all
  then have qle: "q \<le> MaxInt64" using q d by simp
  have "is_int64 d" using d by (simp add: is_int64_def MinInt64_def)
  then have "wrap64 d = d" by (rule wrap64_id)
  then show ?thesis using qpos qle q by (simp add: Parse_Sprintf_Inr [OF u] del: unit_of.simps)
qed

lemma exact_quot:
  assumes "0 < U" "0 \<le> a" "go_rem a U = 0"
  shows "go_quot a U * U = a"
proof -
  have "a mod U = 0" using assms by (simp add: go_rem_nonneg)
  then have "a div U * U = a" by (simp add: mod_eq_0_iff_dvd)
  then show ?thesis using assms by (simp add: go_quot_nonneg)
qed

lemma Format_roundtrip_positive:
  assumes d: "0 < d" "d \<le> MaxInt64" and m: "d mod Minute = 0"
  shows "Parse (Format d) = Inr d"
proof -
  have M: "0 < Minute" by (rule Minute_pos)
  have H: "0 < Hour" using M by (simp add: Hour_def)
  have d0: "0 \<le> d" using d by simp
  consider (w) "d \<ge> 7 * 24 * Hour \<and> go_rem d (7 * 24 * Hour) = 0"
    | (d) "\<not> (d \<ge> 7 * 24 * Hour \<and> go_rem d (7 * 24 * Hour) = 0)"
          "d \<ge> 24 * Hour \<and> go_rem d (24 * Hour) = 0"
    | (h) "\<not> (d \<ge> 7 * 24 * Hour \<and> go_rem d (7 * 24 * Hour) = 0)"
          "\<not> (d \<ge> 24 * Hour \<and> go_rem d (24 * Hour) = 0)"
          "d \<ge> Hour \<and> go_rem d Hour = 0"
    | (m) "\<not> (d \<ge> 7 * 24 * Hour \<and> go_rem d (7 * 24 * Hour) = 0)"
          "\<not> (d \<ge> 24 * Hour \<and> go_rem d (24 * Hour) = 0)"
          "\<not> (d \<ge> Hour \<and> go_rem d Hour = 0)"
    by blast
  then show ?thesis
  proof cases
    case w
    have "go_quot d (7 * 24 * Hour) * (7 * 24 * Hour) = d"
      using H d0 w by (intro exact_quot) simp_all
    then have "go_quot d (7 * 24 * Hour) * unit_of (CHR ''w'') = d" by (simp add: Hour_def)
    then have "Parse (Sprintf_d (go_quot d (7 * 24 * Hour)) @ [CHR ''w'']) = Inr d"
      using d by (intro Parse_Sprintf_exact) simp_all
    then show ?thesis using w by (simp add: Format_def)
  next
    case d
    have "go_quot d (24 * Hour) * (24 * Hour) = d"
      using H d0 d by (intro exact_quot) simp_all
    then have "go_quot d (24 * Hour) * unit_of (CHR ''d'') = d" by (simp add: Hour_def)
    then have "Parse (Sprintf_d (go_quot d (24 * Hour)) @ [CHR ''d'']) = Inr d"
      using \<open>0 < d\<close> \<open>d \<le> MaxInt64\<close> by (intro Parse_Sprintf_exact) simp_all
    then show ?thesis using d by (auto simp: Format_def)
  next
    case h
    have "go_quot d Hour * Hour = d"
      using H d0 h by (intro exact_quot) simp_all
    then have "go_quot d Hour * unit_of (CHR ''h'') = d" by (simp add: Hour_def)
    then have "Parse (Sprintf_d (go_quot d Hour) @ [CHR ''h'']) = Inr d"
      using \<open>0 < d\<close> \<open>d \<le> MaxInt64\<close> by (intro Parse_Sprintf_exact) simp_all
    then show ?thesis using h by (auto simp: Format_def)
  next
    case m
    have "go_rem d Minute = 0" using M d0 assms(3) by (simp add: go_rem_nonneg)
    then have "go_quot d Minute * Minute = d"
      using M d0 by (intro exact_quot) simp_all
    then have "go_quot d Minute * unit_of (CHR ''m'') = d" by simp
    then have "Parse (Sprintf_d (go_quot d Minute) @ [CHR ''m'']) = Inr d"
      using \<open>0 < d\<close> \<open>d \<le> MaxInt64\<close> by (intro Parse_Sprintf_exact) simp_all
    then show ?thesis using m by (auto simp: Format_def)
  qed
qed

lemma Format_parsed_range:
  assumes i: "is_int64 d0" and p: "Parse (Format d0) = Inr d"
  shows "0 < d \<and> d \<le> MaxInt64 \<and> d mod Minute = 0"
proof -
  have M: "0 < Minute" by (rule Minute_pos)
  have H: "0 < Hour" using M by (simp add: Hour_def)
  have le: "d0 \<le> MaxInt64" using i by (simp add: is_int64_def)
  have exact: "0 < d \<and> d \<le> MaxInt64 \<and> d mod Minute = 0"
    if u: "u \<in> set ''mhdw''" and U: "unit_of u = k * Minute" "0 < k"
      and ge: "k * Minute \<le> d0" and r: "go_rem d0 (k * Minute) = 0"
      and pp: "Parse (Sprintf_d (go_quot d0 (k * Minute)) @ [u]) = Inr d" for u k
  proof -
    have kM: "0 < k * Minute" using M U(2) by simp
    have d0pos: "0 < d0" using kM ge by simp
    have q: "go_quot d0 (k * Minute) * (k * Minute) = d0"
      using kM d0pos r by (intro exact_quot) simp_all
    have "d = wrap64 (go_quot d0 (k * Minute) * unit_of u)"
      using pp by (simp add: Parse_Sprintf_Inr [OF u] del: unit_of.simps)
    then have "d = wrap64 d0" using q U(1) by simp
    then have dd: "d = d0" using i by (simp add: wrap64_id)
    have "d0 mod Minute = 0"
    proof -
      have "d0 = (go_quot d0 (k * Minute) * k) * Minute" using q by (simp add: mult.assoc)
      then have "Minute dvd d0" by (metis dvd_triv_right)
      then show ?thesis by (simp add: mod_eq_0_iff_dvd)
    qed
    then show ?thesis using dd d0pos le by simp
  qed
  consider (w) "d0 \<ge> 7 * 24 * Hour \<and> go_rem d0 (7 * 24 * Hour) = 0"
    | (d) "\<not> (d0 \<ge> 7 * 24 * Hour \<and> go_rem d0 (7 * 24 * Hour) = 0)"
          "d0 \<ge> 24 * Hour \<and> go_rem d0 (24 * Hour) = 0"
    | (h) "\<not> (d0 \<ge> 7 * 24 * Hour \<and> go_rem d0 (7 * 24 * Hour) = 0)"
          "\<not> (d0 \<ge> 24 * Hour \<and> go_rem d0 (24 * Hour) = 0)"
          "d0 \<ge> Hour \<and> go_rem d0 Hour = 0"
    | (m) "\<not> (d0 \<ge> 7 * 24 * Hour \<and> go_rem d0 (7 * 24 * Hour) = 0)"
          "\<not> (d0 \<ge> 24 * Hour \<and> go_rem d0 (24 * Hour) = 0)"
          "\<not> (d0 \<ge> Hour \<and> go_rem d0 Hour = 0)"
    by blast
  then show ?thesis
  proof cases
    case w
    then have "Parse (Sprintf_d (go_quot d0 (10080 * Minute)) @ [CHR ''w'']) = Inr d"
      using p by (simp add: Format_def Hour_def)
    moreover have "10080 * Minute \<le> d0" "go_rem d0 (10080 * Minute) = 0"
      using w by (simp_all add: Hour_def)
    ultimately show ?thesis by (intro exact [of "CHR ''w''" 10080]) simp_all
  next
    case d
    then have "Parse (Sprintf_d (go_quot d0 (1440 * Minute)) @ [CHR ''d'']) = Inr d"
      using p by (auto simp: Format_def Hour_def)
    moreover have "1440 * Minute \<le> d0" "go_rem d0 (1440 * Minute) = 0"
      using d by (simp_all add: Hour_def)
    ultimately show ?thesis by (intro exact [of "CHR ''d''" 1440]) simp_all
  next
    case h
    then have "Parse (Sprintf_d (go_quot d0 (60 * Minute)) @ [CHR ''h'']) = Inr d"
      using p by (auto simp: Format_def Hour_def)
    moreover have "60 * Minute \<le> d0" "go_rem d0 (60 * Minute) = 0"
      using h by (simp_all add: Hour_def)
    ultimately show ?thesis by (intro exact [of "CHR ''h''" 60]) simp_all
  next
    case m
    then have pp: "Parse (Sprintf_d (go_quot d0 Minute) @ [CHR ''m'']) = Inr d"
      using p by (auto simp: Format_def)
    have u: "CHR ''m'' \<in> set ''mhdw''" by simp
    from pp have q: "0 < go_quot d0 Minute" and dq: "d = wrap64 (go_quot d0 Minute * Minute)"
      by (simp_all add: Parse_Sprintf_Inr [OF u])
    have d0pos: "0 < d0"
    proof (rule ccontr)
      assume "\<not> 0 < d0"
      then have "go_quot d0 Minute \<le> 0" using M by (intro go_quot_nonpos) simp_all
      with q show False by simp
    qed
    then have qd: "go_quot d0 Minute = d0 div Minute" using M by (simp add: go_quot_nonneg)
    have "d0 div Minute * Minute \<le> d0"
      using M by (metis mult.commute pos_mod_sign add.commute le_add_same_cancel1 mult_div_mod_eq)
    then have "0 < d0 div Minute * Minute" "d0 div Minute * Minute \<le> MaxInt64"
      using q qd M le by simp_all
    then have "is_int64 (d0 div Minute * Minute)" by (simp add: is_int64_def MinInt64_def)
    then have "d = d0 div Minute * Minute" using dq qd by (simp add: wrap64_id)
    then show ?thesis using \<open>0 < d0 div Minute * Minute\<close> \<open>d0 div Minute * Minute \<le> MaxInt64\<close>
      by simp
  qed
qed

lemma Parse_examples:
  "Parse ''1d12h'' = Inl (InvalidDurationFormat ''1d12h'')"
  "Parse ''10'' = Inl (InvalidDurationFormat ''10'')"
  "Parse ''1.5h'' = Inl (InvalidDurationFormat ''1.5h'')"
  "Parse ''10M'' = Inl (InvalidDurationFormat ''10M'')"
  "Parse [] = Inl EmptyDurationString"
  by (simp_all add: Parse_def durationPattern_def isDigit_def)

lemma Parse_zero_minutes: "Parse ''0m'' = Inl (DurationNotPositive 0)"
  by (simp add: Parse_def durationPattern_def isDigit_def Atoi_digits_def decimal_value_def
      MinInt64_def MaxInt64_def)

lemma Format_outside_roundtrip:
  "Format 0 = ''0m''" "Parse (Format 0) = Inl (DurationNotPositive 0)"
  "Format (- 60000000000) = ''-1m''"
  "Parse (Format (- 60000000000)) = Inl (InvalidDurationFormat ''-1m'')"
  "Format 90000000000 = ''1m''" "Parse (Format 90000000000) = Inr 60000000000"
proof -
  show f0: "Format 0 = ''0m''"
    by (simp add: Format_def Hour_def Minute_def go_rem_def go_quot_def Sprintf_d_def
        itoa_nat.simps digit_char_def)
  show "Parse (Format 0) = Inl (DurationNotPositive 0)"
    unfolding f0 by (rule Parse_zero_minutes)
  show fm: "Format (- 60000000000) = ''-1m''"
    by (simp add: Format_def Hour_def Minute_def go_rem_def go_quot_def Sprintf_d_def
        itoa_nat.simps digit_char_def)
  show "Parse (Format (- 60000000000)) = Inl (InvalidDurationFormat ''-1m'')"
    unfolding fm by (simp add: Parse_def durationPattern_def isDigit_def)
  show f90: "Format 90000000000 = ''1m''"
    by (simp add: Format_def Hour_def Minute_def go_rem_def go_quot_def Sprintf_d_def
        itoa_nat.simps digit_char_def)
  show "Parse (Format 90000000000) = Inr 60000000000"
    unfolding f90
    by (simp add: Parse_def durationPattern_def isDigit_def Atoi_digits_def decimal_value_def
        unitMultipliers_def Minute_def wrap64_def MaxInt64_def MinInt64_def)
qed

subsection \<open>Claims about the expiry parser\<close>

text \<open>
  C4 (as amended). For every duration \<open>d\<close> (an \<^verbatim>\<open>int64\<close> count of nanoseconds), parsing the
  formatted string gives back exactly \<open>d\<close> if and only if \<open>d\<close> is a positive whole number
  of minutes. So every positive whole number of minutes, hours, days or weeks survives the
  round trip, and no other duration does.
\<close>

theorem Parse_Format_roundtrip:
  assumes "is_int64 d"
  shows "Parse (Format d) = Inr d \<longleftrightarrow> 0 < d \<and> d mod Minute = 0"
proof
  assume "Parse (Format d) = Inr d"
  with assms have "0 < d \<and> d \<le> MaxInt64 \<and> d mod Minute = 0" by (rule Format_parsed_range)
  then show "0 < d \<and> d mod Minute = 0" by simp
next
  assume "0 < d \<and> d mod Minute = 0"
  then show "Parse (Format d) = Inr d"
    using assms by (simp add: Format_roundtrip_positive is_int64_def)
qed

theorem Parse_Format_roundtrip_witness:
  "is_int64 5400000000000 \<and> Format 5400000000000 = ''90m''
     \<and> Parse (Format 5400000000000) = Inr 5400000000000"
proof -
  have i: "is_int64 5400000000000" by (simp add: is_int64_def MinInt64_def MaxInt64_def)
  have f: "Format 5400000000000 = ''90m''"
    by (simp add: Format_def Hour_def Minute_def go_rem_def go_quot_def Sprintf_d_def
        itoa_nat.simps digit_char_def)
  have "Parse (Format 5400000000000) = Inr 5400000000000"
    using Parse_Format_roundtrip [OF i] by (simp add: Minute_def)
  then show ?thesis using i f by simp
qed

text \<open>
  C4 as stated fails: \<open>Format\<close> produces \<^verbatim>\<open>0m\<close> for the zero duration and \<^verbatim>\<open>-1m\<close> for minus one
  minute, and \<open>Parse\<close> rejects both; 90 seconds are formatted as \<^verbatim>\<open>1m\<close>, which parses to 60
  seconds.
\<close>

theorem Parse_Format_roundtrip_counterexample:
  "Format 0 = ''0m'' \<and> Parse (Format 0) = Inl (DurationNotPositive 0)
     \<and> Parse (Format 0) \<noteq> Inr 0
     \<and> Format (- 60000000000) = ''-1m''
     \<and> Parse (Format (- 60000000000)) = Inl (InvalidDurationFormat ''-1m'')
     \<and> Format 90000000000 = ''1m'' \<and> Parse (Format 90000000000) = Inr 60000000000
     \<and> Parse (Format 90000000000) \<noteq> Inr 90000000000"
  using Format_outside_roundtrip by simp

text \<open>
  C5 (as amended). For every integer \<open>n \<ge> 1\<close> and unit letter \<open>u\<close> in \<open>{m, h, d, w}\<close> whose
  product \<open>n \<times> unit(u)\<close> fits the \<^verbatim>\<open>int64\<close> nanosecond range of a duration, \<open>Parse\<close> applied
  to the decimal representation of \<open>n\<close> followed by \<open>u\<close> succeeds and returns exactly
  \<open>n \<times> unit(u)\<close>.
\<close>

theorem Parse_exact_within_range:
  assumes "1 \<le> n" and "u \<in> {CHR ''m'', CHR ''h'', CHR ''d'', CHR ''w''}"
    and "int n * unit_of u \<le> MaxInt64"
  shows "Parse (itoa_nat n @ [u]) = Inr (int n * unit_of u)"
proof -
  have u: "u \<in> set ''mhdw''" using assms(2) by auto
  have pos: "1 \<le> unit_of u" using u by (rule unit_of_pos)
  have "int n * 1 \<le> int n * unit_of u" using pos by (intro mult_left_mono) simp_all
  then have n_le: "int n \<le> MaxInt64" using assms(3) by simp
  have "0 \<le> int n * unit_of u" using pos by simp
  then have "is_int64 (int n * unit_of u)"
    using assms(3) by (simp add: is_int64_def MinInt64_def)
  then have w: "wrap64 (int n * unit_of u) = int n * unit_of u" by (rule wrap64_id)
  have "Parse (itoa_nat n @ [u]) =
     (if MaxInt64 < int (decimal_value (itoa_nat n)) then Inl (InvalidDurationValue ErrRange)
      else if decimal_value (itoa_nat n) = 0 then Inl (DurationNotPositive 0)
      else Inr (wrap64 (int (decimal_value (itoa_nat n)) * unit_of u)))"
    using itoa_nat_nonempty itoa_nat_digits u by (rule Parse_digits_unit)
  then show ?thesis using n_le assms(1) w by (simp add: decimal_value_itoa del: unit_of.simps)
qed

theorem Parse_exact_within_range_witness:
  "(1::nat) \<le> 10 \<and> CHR ''m'' \<in> {CHR ''m'', CHR ''h'', CHR ''d'', CHR ''w''}
     \<and> int 10 * unit_of (CHR ''m'') \<le> MaxInt64
     \<and> Parse (itoa_nat 10 @ [CHR ''m'']) = Inr 600000000000"
  using Parse_exact_within_range [of 10 "CHR ''m''"]
  by (simp add: MaxInt64_def Minute_def)

text \<open>
  C5 as stated fails: 153722868 minutes exceed the largest \<^verbatim>\<open>int64\<close> nanosecond count, the
  multiplication wraps around, and \<open>Parse\<close> returns a negative duration without an error.
\<close>

theorem Parse_exact_counterexample:
  "itoa_nat 153722868 @ [CHR ''m''] = ''153722868m''
     \<and> Parse (itoa_nat 153722868 @ [CHR ''m'']) = Inr (- 9223371993709551616)
     \<and> Parse (itoa_nat 153722868 @ [CHR ''m'']) \<noteq> Inr (int 153722868 * unit_of (CHR ''m''))"
proof -
  have i: "itoa_nat 153722868 = ''153722868''"
    by (simp add: itoa_nat.simps digit_char_def)
  have p: "Parse ''153722868m'' = Inr (- 9223371993709551616)"
    by (simp add: Parse_def durationPattern_def isDigit_def Atoi_digits_def decimal_value_def
        unitMultipliers_def Minute_def wrap64_def MaxInt64_def MinInt64_def)
  show ?thesis using i p by (simp add: Minute_def)
qed

text \<open>
  C6. \<open>Parse\<close> returns an error, and no duration, for every input outside the grammar; in
  particular for the compound expression \<^verbatim>\<open>1d12h\<close>, the bare number \<^verbatim>\<open>10\<close>, the fractional
  value \<^verbatim>\<open>1.5h\<close>, the zero value \<^verbatim>\<open>0m\<close>, the empty string and the upper-case unit \<^verbatim>\<open>10M\<close>.
\<close>

theorem Parse_rejects_outside_grammar:
  "(\<not> spec_grammar s \<longrightarrow> (\<exists>e. Parse s = Inl e))
     \<and> Parse ''1d12h'' = Inl (InvalidDurationFormat ''1d12h'')
     \<and> Parse ''10'' = Inl (InvalidDurationFormat ''10'')
     \<and> Parse ''1.5h'' = Inl (InvalidDurationFormat ''1.5h'')
     \<and> Parse ''0m'' = Inl (DurationNotPositive 0)
     \<and> Parse [] = Inl EmptyDurationString
     \<and> Parse ''10M'' = Inl (InvalidDurationFormat ''10M'')"
proof -
  have "\<exists>e. Parse s = Inl e" if "\<not> spec_grammar s"
  proof (cases "Parse s")
    case (Inl e)
    then show ?thesis by blast
  next
    case (Inr d)
    then have "spec_grammar s" by (rule Parse_Inr_grammar)
    with that show ?thesis by simp
  qed
  then show ?thesis using Parse_examples Parse_zero_minutes by blast
qed

theorem Parse_rejects_outside_grammar_witness:
  "\<not> spec_grammar ''1d12h'' \<and> (\<exists>e. Parse ''1d12h'' = Inl e)"
  using Parse_rejects_outside_grammar [of "''1d12h''"]
  by (simp add: spec_grammar_def isDigit_def)

section \<open>Identifiers and handlers: proofs\<close>

lemma Alphabet_base62: "list_all isBase62 Alphabet"
  by (simp add: Alphabet_def isBase62_def)

lemma length_Alphabet: "length Alphabet = 62"
  by (simp add: Alphabet_def)

lemma Alphabet_nth_base62: "k < 62 \<Longrightarrow> isBase62 (Alphabet ! k)"
  using Alphabet_base62 by (simp add: list_all_length length_Alphabet)

text \<open>
  C8. Every identifier returned by a successful \<open>Generate\<close> has length exactly 12 and only
  base62 characters, so \<open>IsValid\<close> accepts it.
\<close>

theorem Generate_IsValid:
  assumes "Generate rnd = Inr sid"
  shows "length sid = 12 \<and> list_all isBase62 sid \<and> IsValid sid"
proof -
  from assms obtain draw where
    sid: "sid = map (\<lambda>i. Alphabet ! (draw i mod length Alphabet)) [0..<Length]"
    by (auto simp: Generate_def gonanoid_Generate_def split: if_splits option.splits)
  have len: "length sid = 12" by (simp add: sid Length_def)
  have "isBase62 (Alphabet ! (draw i mod length Alphabet))" for i
    by (rule Alphabet_nth_base62) (simp add: length_Alphabet)
  then have all: "list_all isBase62 sid" by (simp add: sid list_all_iff)
  show ?thesis using len all by (simp add: IsValid_def Length_def)
qed

theorem Generate_IsValid_witness:
  "Generate (Some (\<lambda>i. 7 * i)) = Inr ''07ELSZgnu18F'' \<and> IsValid ''07ELSZgnu18F''"
proof -
  have g: "Generate (Some (\<lambda>i. 7 * i)) = Inr ''07ELSZgnu18F''"
    by (simp add: Generate_def gonanoid_Generate_def Alphabet_def Length_def upt_rec)
  show ?thesis using g Generate_IsValid [OF g] by simp
qed

lemma Get_absent:
  "snippets db a = None \<Longrightarrow> Get db a = (if reachable db then Inr None else Inl PoolFailure)"
  by (simp add: Get_def)

lemma Get_expired:
  "snippets db b = Some r \<Longrightarrow> expires_at r \<le> NOW db \<Longrightarrow>
   Get db b = (if reachable db then Inr None else Inl PoolFailure)"
  by (simp add: Get_def)

lemma invalidID_distinct: "invalidID \<noteq> notFound" "invalidID \<noteq> internalError"
  by (simp_all add: invalidID_def notFound_def internalError_def writeError_def)

text \<open>
  C1 (as amended). A read of a well-formed identifier that was never created and a read of
  an identifier whose entry has expired produce the identical outcome (the 404
  \<^verbatim>\<open>NOT_FOUND\<close> response when the store answers). A malformed identifier is answered without
  a store call by the 400 \<^verbatim>\<open>INVALID_ID\<close> response, which differs from the other two.
\<close>

theorem handleGet_negative_outcomes:
  assumes "IsValid a" and "snippets db a = None"
    and "IsValid b" and "snippets db b = Some r" and "expires_at r \<le> NOW db"
    and "\<not> IsValid m"
  shows "fst (handleGet db a) = fst (handleGet db b)
       \<and> (reachable db \<longrightarrow> fst (handleGet db a) = notFound)
       \<and> handleGet db m = (invalidID, [])
       \<and> fst (handleGet db m) \<noteq> fst (handleGet db a)"
proof -
  have a: "fst (handleGet db a) = (if reachable db then notFound else internalError)"
    using assms(1,2) by (simp add: handleGet_def Get_absent)
  have b: "fst (handleGet db b) = (if reachable db then notFound else internalError)"
    using assms(3,4,5) by (simp add: handleGet_def Get_expired)
  have m: "handleGet db m = (invalidID, [])"
    using assms(6) by (simp add: handleGet_def)
  show ?thesis using a b m invalidID_distinct by simp
qed

lemma IsValid_examples:
  "\<not> IsValid ''not-12-chars''" "IsValid ''abc123XYZ789''" "IsValid ''abcdefghijkl''"
  by (simp_all add: IsValid_def Length_def isBase62_def)

theorem handleGet_negative_outcomes_witness:
  "IsValid ''abc123XYZ789'' \<and> snippets example_db ''abc123XYZ789'' = None
     \<and> IsValid ''abcdefghijkl''
     \<and> snippets example_db ''abcdefghijkl'' = Some \<lparr>content = ''gone'', expires_at = 1000, created_at = 0\<rparr>
     \<and> (1000::int) \<le> NOW example_db \<and> \<not> IsValid ''not-12-chars''
     \<and> fst (handleGet example_db ''abc123XYZ789'') = notFound
     \<and> fst (handleGet example_db ''abcdefghijkl'') = notFound
     \<and> handleGet example_db ''not-12-chars'' = (invalidID, [])"
proof -
  have h2: "snippets example_db ''abc123XYZ789'' = None"
    by (simp add: example_db_def)
  have h4: "snippets example_db ''abcdefghijkl''
      = Some \<lparr>content = ''gone'', expires_at = 1000, created_at = 0\<rparr>"
    by (simp add: example_db_def)
  have h5: "expires_at \<lparr>content = ''gone'', expires_at = 1000, created_at = 0\<rparr> \<le> NOW example_db"
    by (simp add: example_db_def)
  have r: "reachable example_db" by (simp add: example_db_def)
  note t = handleGet_negative_outcomes [OF IsValid_examples(2) h2 IsValid_examples(3) h4 h5
      IsValid_examples(1)]
  from t r have "fst (handleGet example_db ''abc123XYZ789'') = notFound" by blast
  moreover from t this have "fst (handleGet example_db ''abcdefghijkl'') = notFound" by simp
  moreover from t have "handleGet example_db ''not-12-chars'' = (invalidID, [])" by blast
  ultimately show ?thesis using IsValid_examples h2 h4 h5 by simp
qed

text \<open>
  C1 as stated fails: the malformed identifier \<^verbatim>\<open>not-12-chars\<close> is answered with status 400,
  the well-formed identifier \<^verbatim>\<open>abc123XYZ789\<close>, never created, with status 404.
\<close>

theorem handleGet_indistinguishable_counterexample:
  "\<not> IsValid ''not-12-chars'' \<and> IsValid ''abc123XYZ789''
     \<and> snippets empty_db ''abc123XYZ789'' = None
     \<and> fst (handleGet empty_db ''not-12-chars'') = invalidID
     \<and> fst (handleGet empty_db ''abc123XYZ789'') = notFound
     \<and> statusCode (fst (handleGet empty_db ''not-12-chars'')) = 400
     \<and> statusCode (fst (handleGet empty_db ''abc123XYZ789'')) = 404
     \<and> fst (handleGet empty_db ''not-12-chars'') \<noteq> fst (handleGet empty_db ''abc123XYZ789'')"
  using IsValid_examples
  by (simp add: handleGet_def Get_def empty_db_def invalidID_def notFound_def writeError_def)

lemma Create_error_keeps_db: "fst (Create db sid c e) = Inl err \<Longrightarrow> Create db sid c e = (Inl err, db)"
  by (auto simp: Create_def split: if_splits)

lemma Create_duplicate:
  "reachable db \<Longrightarrow> length sid \<le> 12 \<Longrightarrow> snippets db sid \<noteq> None \<Longrightarrow>
   Create db sid c e = (Inl UniqueViolation, db)"
  by (simp add: Create_def)

text \<open>
  C2 (as amended). On a write that passes the expiry, size and emptiness checks, the
  handler generates one identifier and calls the store's create once; when that call fails,
  for a duplicate identifier as for any other store error, the request ends with the 500
  \<^verbatim>\<open>INTERNAL_ERROR\<close> response, the database unchanged, and nothing is retried.
\<close>

theorem handleCreate_store_error:
  assumes "resolve_expiry cfg (expiry_query r) = Inr d"
    and "ReadAll_LimitReader (wrap64 (MaxContentSize cfg + 1)) r = Inr c"
    and "int (length c) \<le> MaxContentSize cfg" and "c \<noteq> []"
    and "Generate rnd = Inr sid"
    and "fst (Create db sid c (now + d)) = Inl err"
  shows "handleCreate cfg rnd now db r =
           (internalError, db, [ReadBody (length c), GenerateID, RepoCreate sid c (now + d)])"
proof -
  have "Create db sid c (now + d) = (Inl err, db)"
    using assms(6) by (rule Create_error_keeps_db)
  then show ?thesis
    using assms(1-5) by (simp add: handleCreate_def)
qed

lemma example_Generate: "Generate example_rnd = Inr ''07ELSZgnu18F''"
  by (simp add: example_rnd_def Generate_def gonanoid_Generate_def Alphabet_def Length_def upt_rec)

lemma example_read:
  "ReadAll_LimitReader (wrap64 (MaxContentSize example_cfg + 1)) (hello_request e) = Inr ''hello''"
  by (simp add: example_cfg_def hello_request_def ReadAll_LimitReader_def wrap64_def)

lemma example_default_expiry:
  "resolve_expiry example_cfg (expiry_query (hello_request [])) = Inr 259200000000000"
  by (simp add: resolve_expiry_def hello_request_def example_cfg_def Hour_def Minute_def)

lemma example_duplicate:
  "fst (Create example_db ''07ELSZgnu18F'' ''hello'' (2000 + 259200000000000)) = Inl UniqueViolation"
  by (simp add: Create_def example_db_def)

theorem handleCreate_store_error_witness:
  "resolve_expiry example_cfg (expiry_query (hello_request [])) = Inr 259200000000000
     \<and> Generate example_rnd = Inr ''07ELSZgnu18F''
     \<and> fst (Create example_db ''07ELSZgnu18F'' ''hello'' (2000 + 259200000000000)) = Inl UniqueViolation
     \<and> handleCreate example_cfg example_rnd 2000 example_db (hello_request []) =
         (internalError, example_db,
          [ReadBody 5, GenerateID, RepoCreate ''07ELSZgnu18F'' ''hello'' 259200000002000])"
proof -
  have "handleCreate example_cfg example_rnd 2000 example_db (hello_request []) =
         (internalError, example_db,
          [ReadBody (length ''hello''), GenerateID,
           RepoCreate ''07ELSZgnu18F'' ''hello'' (2000 + 259200000000000)])"
    by (rule handleCreate_store_error [OF example_default_expiry example_read _ _ example_Generate
          example_duplicate]) (simp_all add: example_cfg_def)
  then show ?thesis
    using example_default_expiry example_Generate example_duplicate by simp
qed

text \<open>
  C2 as stated fails: the generated identifier \<^verbatim>\<open>07ELSZgnu18F\<close> is already a key of the
  table, the store reports the unique violation, and the handler answers 500
  \<^verbatim>\<open>INTERNAL_ERROR\<close> after one \<^verbatim>\<open>Generate\<close> and one \<^verbatim>\<open>Create\<close>.
\<close>

theorem handleCreate_retry_counterexample:
  "snippets example_db ''07ELSZgnu18F'' \<noteq> None
     \<and> Generate example_rnd = Inr ''07ELSZgnu18F''
     \<and> fst (Create example_db ''07ELSZgnu18F'' ''hello'' 259200000002000) = Inl UniqueViolation
     \<and> handleCreate example_cfg example_rnd 2000 example_db (hello_request []) =
         (internalError, example_db,
          [ReadBody 5, GenerateID, RepoCreate ''07ELSZgnu18F'' ''hello'' 259200000002000])
     \<and> statusCode internalError = 500
     \<and> body internalError = ErrorResponse ''INTERNAL_ERROR'' (Text ''an internal error occurred'')"
proof -
  have c: "Create example_db ''07ELSZgnu18F'' ''hello'' 259200000002000 = (Inl UniqueViolation, example_db)"
    by (rule Create_duplicate) (simp_all add: example_db_def)
  have "handleCreate example_cfg example_rnd 2000 example_db (hello_request []) =
         (internalError, example_db,
          [ReadBody 5, GenerateID, RepoCreate ''07ELSZgnu18F'' ''hello'' 259200000002000])"
    using example_default_expiry example_read [of "[]"] example_Generate c
    by (simp add: handleCreate_def example_cfg_def)
  then show ?thesis using c example_Generate
    by (simp add: example_db_def internalError_def writeError_def)
qed

lemma status_codes:
  "statusCode internalError = 500" "statusCode emptyContent = 400"
  "statusCode (payloadTooLarge n) = 413" "statusCode (invalidExpiry msg) = 400"
  by (simp_all add: internalError_def emptyContent_def payloadTooLarge_def invalidExpiry_def
      writeError_def)

lemma resolve_expiry_Parse:
  "s \<noteq> [] \<Longrightarrow> resolve_expiry cfg s = Inr d \<Longrightarrow> Parse s = Inr d"
  by (auto simp: resolve_expiry_def split: sum.splits option.splits)

lemma spec_duration_Parse:
  assumes p: "Parse s = Inr d" and le: "spec_duration s \<le> MaxInt64"
  shows "d = spec_duration s"
proof -
  have g: "spec_grammar s" using p by (rule Parse_Inr_grammar)
  then have s: "s = butlast s @ [last s]" by (simp add: spec_grammar_def)
  have ds: "butlast s \<noteq> []" "list_all isDigit (butlast s)" and u: "last s \<in> set ''mhdw''"
    using g by (auto simp: spec_grammar_def)
  have "Parse (butlast s @ [last s]) =
     (if MaxInt64 < int (decimal_value (butlast s)) then Inl (InvalidDurationValue ErrRange)
      else if decimal_value (butlast s) = 0 then Inl (DurationNotPositive 0)
      else Inr (wrap64 (int (decimal_value (butlast s)) * unit_of (last s))))"
    using ds u by (rule Parse_digits_unit)
  then have "Parse s =
     (if MaxInt64 < int (decimal_value (butlast s)) then Inl (InvalidDurationValue ErrRange)
      else if decimal_value (butlast s) = 0 then Inl (DurationNotPositive 0)
      else Inr (wrap64 (spec_duration s)))"
    using s by (simp add: spec_duration_def del: unit_of.simps)
  then have d: "d = wrap64 (spec_duration s)" using p by (simp split: if_splits)
  have "0 \<le> spec_duration s"
    using unit_of_pos [OF u] by (simp add: spec_duration_def del: unit_of.simps)
  then have "is_int64 (spec_duration s)" using le by (simp add: is_int64_def MinInt64_def)
  then show ?thesis using d by (simp add: wrap64_id)
qed

lemma handleCreate_created:
  assumes "handleCreate cfg rnd now db r = (resp, db', calls)" and "statusCode resp = 201"
  shows "\<exists>d sid c. resolve_expiry cfg (expiry_query r) = Inr d
           \<and> Generate rnd = Inr sid
           \<and> ReadAll_LimitReader (wrap64 (MaxContentSize cfg + 1)) r = Inr c
           \<and> Create db sid c (now + d) =
               (Inr \<lparr>ID = sid, Content = c, ExpiresAt = now + d, CreatedAt = NOW db\<rparr>, db')
           \<and> body resp = CreateResponse sid (BaseURL cfg @ ''/'' @ sid) (now + d)
           \<and> calls = [ReadBody (length c), GenerateID, RepoCreate sid c (now + d)]"
proof -
  obtain d where d: "resolve_expiry cfg (expiry_query r) = Inr d"
    using assms by (cases "resolve_expiry cfg (expiry_query r)")
      (auto simp: handleCreate_def status_codes)
  obtain c where c: "ReadAll_LimitReader (wrap64 (MaxContentSize cfg + 1)) r = Inr c"
    using assms d by (cases "ReadAll_LimitReader (wrap64 (MaxContentSize cfg + 1)) r")
      (auto simp: handleCreate_def status_codes)
  have ok: "\<not> int (length c) > MaxContentSize cfg" "length c \<noteq> 0"
    using assms d c by (auto simp: handleCreate_def status_codes split: if_splits)
  obtain sid where sid: "Generate rnd = Inr sid"
    using assms d c ok by (cases "Generate rnd") (auto simp: handleCreate_def status_codes)
  obtain res db1 where cr: "Create db sid c (now + d) = (res, db1)"
    by (cases "Create db sid c (now + d)") auto
  obtain sn where sn: "res = Inr sn"
    using assms d c ok sid cr by (cases res) (auto simp: handleCreate_def status_codes)
  have sn_eq: "sn = \<lparr>ID = sid, Content = c, ExpiresAt = now + d, CreatedAt = NOW db\<rparr>"
    using cr sn by (auto simp: Create_def split: if_splits)
  have "db' = db1 \<and> body resp = CreateResponse sid (BaseURL cfg @ ''/'' @ sid) (now + d)
      \<and> calls = [ReadBody (length c), GenerateID, RepoCreate sid c (now + d)]"
    using assms(1) d c ok sid cr sn sn_eq by (auto simp: handleCreate_def Let_def)
  then show ?thesis using d c sid cr sn sn_eq by auto
qed

text \<open>
  C3 (as amended). For every successful publish with an expiry text denoting a duration
  \<open>delta\<close> of at most \<open>2^63 - 1\<close> nanoseconds, the entry the store returns and the response
  have \<open>expires_at = now + delta\<close> exactly, where \<open>now\<close> is the reading of the handler's
  clock; the row holds that instant as the column converts it, and \<open>created_at\<close> is the
  reading of the database clock at insertion.
\<close>

theorem handleCreate_expires_at:
  assumes "expiry_query r \<noteq> []" and "spec_duration (expiry_query r) = delta"
    and "delta \<le> MaxInt64"
    and "handleCreate cfg rnd now db r = (resp, db', calls)" and "statusCode resp = 201"
  shows "spec_grammar (expiry_query r)
       \<and> (\<exists>sid c. body resp = CreateResponse sid (BaseURL cfg @ ''/'' @ sid) (now + delta)
             \<and> Create db sid c (now + delta) =
                 (Inr \<lparr>ID = sid, Content = c, ExpiresAt = now + delta, CreatedAt = NOW db\<rparr>, db')
             \<and> snippets db' sid =
                 Some \<lparr>content = c, expires_at = timestamptz db (now + delta),
                       created_at = NOW db\<rparr>)"
proof -
  from handleCreate_created [OF assms(4,5)] obtain d sid c where
    d: "resolve_expiry cfg (expiry_query r) = Inr d"
    and cr: "Create db sid c (now + d) =
               (Inr \<lparr>ID = sid, Content = c, ExpiresAt = now + d, CreatedAt = NOW db\<rparr>, db')"
    and b: "body resp = CreateResponse sid (BaseURL cfg @ ''/'' @ sid) (now + d)"
    by blast
  have p: "Parse (expiry_query r) = Inr d" using assms(1) d by (rule resolve_expiry_Parse)
  have g: "spec_grammar (expiry_query r)" using p by (rule Parse_Inr_grammar)
  have "d = spec_duration (expiry_query r)"
    using p assms(2,3) by (intro spec_duration_Parse) simp_all
  then have dd: "d = delta" using assms(2) by simp
  have "snippets db' sid =
      Some \<lparr>content = c, expires_at = timestamptz db (now + d), created_at = NOW db\<rparr>"
    using cr by (auto simp: Create_def split: if_splits)
  then show ?thesis using g b cr dd by blast
qed

lemma Parse_10m: "Parse ''10m'' = Inr 600000000000"
  by (simp add: Parse_def durationPattern_def isDigit_def Atoi_digits_def decimal_value_def
      unitMultipliers_def Minute_def wrap64_def MaxInt64_def MinInt64_def)

lemma Parse_wrapped_hour: "Parse ''9007199254741052m'' = Inr 3600000000000"
  by (simp add: Parse_def durationPattern_def isDigit_def Atoi_digits_def decimal_value_def
      unitMultipliers_def Minute_def wrap64_def MaxInt64_def MinInt64_def)

lemma spec_duration_examples:
  "spec_duration ''10m'' = 600000000000"
  "spec_duration ''9007199254741052m'' = 540431955284463120000000000"
  by (simp_all add: spec_duration_def decimal_value_def Minute_def)

lemma example_publish:
  assumes "resolve_expiry example_cfg e = Inr d"
  shows "handleCreate example_cfg example_rnd 1000 empty_db (hello_request e) =
     (\<lparr>statusCode = 201, headers = [(''Content-Type'', ''application/json'')],
       body = CreateResponse ''07ELSZgnu18F'' ''http://localhost:8080/07ELSZgnu18F'' (1000 + d)\<rparr>,
      empty_db\<lparr>snippets := [''07ELSZgnu18F'' \<mapsto>
         \<lparr>content = ''hello'', expires_at = microseconds (1000 + d), created_at = 1005\<rparr>]\<rparr>,
      [ReadBody 5, GenerateID, RepoCreate ''07ELSZgnu18F'' ''hello'' (1000 + d)])"
proof -
  have e: "resolve_expiry example_cfg (expiry_query (hello_request e)) = Inr d"
    using assms by (simp add: hello_request_def)
  have c: "Create empty_db ''07ELSZgnu18F'' ''hello'' (1000 + d) =
     (Inr \<lparr>ID = ''07ELSZgnu18F'', Content = ''hello'', ExpiresAt = 1000 + d, CreatedAt = 1005\<rparr>,
      empty_db\<lparr>snippets := [''07ELSZgnu18F'' \<mapsto>
         \<lparr>content = ''hello'', expires_at = microseconds (1000 + d), created_at = 1005\<rparr>]\<rparr>)"
    by (simp add: Create_def empty_db_def)
  show ?thesis
    using e example_read [of e] example_Generate c
    by (simp add: handleCreate_def example_cfg_def Let_def)
qed

lemma example_created:
  "handleCreate example_cfg example_rnd 1000 empty_db (hello_request ''10m'') =
     (\<lparr>statusCode = 201, headers = [(''Content-Type'', ''application/json'')],
       body = CreateResponse ''07ELSZgnu18F'' ''http://localhost:8080/07ELSZgnu18F'' 600000001000\<rparr>,
      empty_db\<lparr>snippets := [''07ELSZgnu18F'' \<mapsto>
         \<lparr>content = ''hello'', expires_at = 600000001000, created_at = 1005\<rparr>]\<rparr>,
      [ReadBody 5, GenerateID, RepoCreate ''07ELSZgnu18F'' ''hello'' 600000001000])"
proof -
  have e: "resolve_expiry example_cfg ''10m'' = Inr 600000000000"
    using Parse_10m
    by (simp add: resolve_expiry_def example_cfg_def Validate_def Hour_def Minute_def)
  show ?thesis using example_publish [OF e] by (simp add: microseconds_def)
qed

lemma example_created_wrapped:
  "handleCreate example_cfg example_rnd 1000 empty_db (hello_request ''9007199254741052m'') =
     (\<lparr>statusCode = 201, headers = [(''Content-Type'', ''application/json'')],
       body = CreateResponse ''07ELSZgnu18F'' ''http://localhost:8080/07ELSZgnu18F'' 3600000001000\<rparr>,
      empty_db\<lparr>snippets := [''07ELSZgnu18F'' \<mapsto>
         \<lparr>content = ''hello'', expires_at = 3600000001000, created_at = 1005\<rparr>]\<rparr>,
      [ReadBody 5, GenerateID, RepoCreate ''07ELSZgnu18F'' ''hello'' 3600000001000])"
proof -
  have e: "resolve_expiry example_cfg ''9007199254741052m'' = Inr 3600000000000"
    using Parse_wrapped_hour
    by (simp add: resolve_expiry_def example_cfg_def Validate_def Hour_def Minute_def)
  show ?thesis using example_publish [OF e] by (simp add: microseconds_def)
qed

theorem handleCreate_expires_at_witness:
  "expiry_query (hello_request ''10m'') \<noteq> []
     \<and> spec_duration (expiry_query (hello_request ''10m'')) = 600000000000
     \<and> (600000000000 :: int) \<le> MaxInt64
     \<and> statusCode (fst (handleCreate example_cfg example_rnd 1000 empty_db (hello_request ''10m''))) = 201
     \<and> spec_grammar (expiry_query (hello_request ''10m''))
     \<and> body (fst (handleCreate example_cfg example_rnd 1000 empty_db (hello_request ''10m'')))
         = CreateResponse ''07ELSZgnu18F'' ''http://localhost:8080/07ELSZgnu18F'' (1000 + 600000000000)"
proof -
  have q: "expiry_query (hello_request ''10m'') \<noteq> []" by (simp add: hello_request_def)
  have p: "spec_duration (expiry_query (hello_request ''10m'')) = 600000000000"
    using spec_duration_examples by (simp add: hello_request_def)
  have m: "(600000000000 :: int) \<le> MaxInt64" by (simp add: MaxInt64_def)
  have s: "statusCode \<lparr>statusCode = 201, headers = [(''Content-Type'', ''application/json'')],
       body = CreateResponse ''07ELSZgnu18F'' ''http://localhost:8080/07ELSZgnu18F'' 600000001000\<rparr> = 201"
    by simp
  from handleCreate_expires_at [OF q p m example_created s]
  have "spec_grammar (expiry_query (hello_request ''10m''))" by blast
  then show ?thesis using q p m by (simp add: example_created)
qed

text \<open>
  C3 as stated fails. With the handler's clock at 1000 and the database clock at 1005, a
  publish with \<^verbatim>\<open>10m\<close> has \<open>expires_at = 1000 + 10 minutes\<close> and \<open>created_at = 1005\<close>. And the
  text \<^verbatim>\<open>9007199254741052m\<close>, whose duration exceeds the \<^verbatim>\<open>int64\<close> range, is parsed with
  wrap-around as one hour, passes the range check and is published with
  \<open>expires_at = 1000 + 1 hour\<close>.
\<close>

theorem handleCreate_expires_at_counterexample:
  "spec_duration ''10m'' = 600000000000
     \<and> handleCreate example_cfg example_rnd 1000 empty_db (hello_request ''10m'') =
         (\<lparr>statusCode = 201, headers = [(''Content-Type'', ''application/json'')],
           body = CreateResponse ''07ELSZgnu18F'' ''http://localhost:8080/07ELSZgnu18F''
                    600000001000\<rparr>,
          empty_db\<lparr>snippets := [''07ELSZgnu18F'' \<mapsto>
             \<lparr>content = ''hello'', expires_at = 600000001000, created_at = 1005\<rparr>]\<rparr>,
          [ReadBody 5, GenerateID, RepoCreate ''07ELSZgnu18F'' ''hello'' 600000001000])
     \<and> (600000001000 :: int) \<noteq> 1005 + 600000000000
     \<and> spec_duration ''9007199254741052m'' = 540431955284463120000000000
     \<and> handleCreate example_cfg example_rnd 1000 empty_db (hello_request ''9007199254741052m'') =
         (\<lparr>statusCode = 201, headers = [(''Content-Type'', ''application/json'')],
           body = CreateResponse ''07ELSZgnu18F'' ''http://localhost:8080/07ELSZgnu18F''
                    3600000001000\<rparr>,
          empty_db\<lparr>snippets := [''07ELSZgnu18F'' \<mapsto>
             \<lparr>content = ''hello'', expires_at = 3600000001000, created_at = 1005\<rparr>]\<rparr>,
          [ReadBody 5, GenerateID, RepoCreate ''07ELSZgnu18F'' ''hello'' 3600000001000])
     \<and> (3600000001000 :: int) \<noteq> 1000 + 540431955284463120000000000"
  using spec_duration_examples example_created example_created_wrapped by simp

lemma limit_in_range:
  "1 \<le> m \<Longrightarrow> m < MaxInt64 \<Longrightarrow> wrap64 (m + 1) = m + 1"
  by (rule wrap64_id) (simp add: is_int64_def MinInt64_def MaxInt64_def)

lemma ReadAll_length:
  "ReadAll_LimitReader n r = Inr c \<Longrightarrow> 0 \<le> n \<Longrightarrow> int (length c) \<le> n"
  by (auto simp: ReadAll_LimitReader_def split: if_splits)

lemma ReadAll_long:
  "n \<le> int (length (body_bytes r)) \<Longrightarrow> ReadAll_LimitReader n r = Inr (take (nat n) (body_bytes r))"
  by (simp add: ReadAll_LimitReader_def)

lemma ReadAll_clean:
  "\<not> body_fails r \<Longrightarrow> ReadAll_LimitReader n r = Inr (take (nat n) (body_bytes r))"
  by (simp add: ReadAll_LimitReader_def)

lemma handleCreate_read_bound:
  assumes m: "1 \<le> MaxContentSize cfg" "MaxContentSize cfg < MaxInt64"
    and h: "handleCreate cfg rnd now db r = (resp, db', calls)"
    and k: "ReadBody k \<in> set calls"
  shows "int k \<le> MaxContentSize cfg + 1"
proof -
  have w: "wrap64 (MaxContentSize cfg + 1) = MaxContentSize cfg + 1"
    using m by (rule limit_in_range)
  show ?thesis
  proof (cases "resolve_expiry cfg (expiry_query r)")
    case (Inl msg)
    then show ?thesis using h k by (auto simp: handleCreate_def)
  next
    case (Inr d)
    show ?thesis
    proof (cases "ReadAll_LimitReader (MaxContentSize cfg + 1) r")
      case (Inl e)
      then have "int (length (body_bytes r)) < MaxContentSize cfg + 1"
        by (auto simp: ReadAll_LimitReader_def split: if_splits)
      moreover have "k = length (body_bytes r)"
        using h k Inr Inl w by (auto simp: handleCreate_def)
      ultimately show ?thesis by simp
    next
      case c: (Inr c)
      then have "int (length c) \<le> MaxContentSize cfg + 1"
        using m by (intro ReadAll_length [of _ r]) simp_all
      moreover have "k = length c"
        using h k Inr c w
        by (auto simp: handleCreate_def Let_def split: if_splits sum.splits prod.splits)
      ultimately show ?thesis by simp
    qed
  qed
qed

lemma handleCreate_too_large_iff:
  assumes m: "1 \<le> MaxContentSize cfg" "MaxContentSize cfg < MaxInt64"
    and h: "handleCreate cfg rnd now db r = (resp, db', calls)"
  shows "statusCode resp = 413 \<longleftrightarrow>
           (\<exists>d. resolve_expiry cfg (expiry_query r) = Inr d)
             \<and> MaxContentSize cfg < int (length (body_bytes r))"
proof -
  have w: "wrap64 (MaxContentSize cfg + 1) = MaxContentSize cfg + 1"
    using m by (rule limit_in_range)
  show ?thesis
  proof (cases "resolve_expiry cfg (expiry_query r)")
    case (Inl msg)
    then show ?thesis using h by (auto simp: handleCreate_def status_codes)
  next
    case (Inr d)
    show ?thesis
    proof (cases "MaxContentSize cfg < int (length (body_bytes r))")
      case True
      define c where "c = take (nat (MaxContentSize cfg + 1)) (body_bytes r)"
      have rd: "ReadAll_LimitReader (MaxContentSize cfg + 1) r = Inr c"
        unfolding c_def using True by (intro ReadAll_long) simp
      have big: "MaxContentSize cfg < int (length c)"
        unfolding c_def using True m by simp
      have "resp = payloadTooLarge (MaxContentSize cfg)"
        using h Inr w rd big by (simp add: handleCreate_def)
      then show ?thesis using True Inr by (simp add: status_codes)
    next
      case False
      have "statusCode resp \<noteq> 413"
      proof (cases "ReadAll_LimitReader (MaxContentSize cfg + 1) r")
        case (Inl e)
        then show ?thesis using h Inr w by (auto simp: handleCreate_def status_codes)
      next
        case c: (Inr c)
        then have "length c \<le> length (body_bytes r)"
          by (auto simp: ReadAll_LimitReader_def split: if_splits)
        then have "\<not> MaxContentSize cfg < int (length c)" using False by simp
        then show ?thesis using h Inr c w
          by (auto simp: handleCreate_def Let_def status_codes
              split: if_splits sum.splits prod.splits)
      qed
      then show ?thesis using False by simp
    qed
  qed
qed

lemma bodies:
  "body internalError = ErrorResponse ''INTERNAL_ERROR'' (Text ''an internal error occurred'')"
  "body emptyContent = ErrorResponse ''EMPTY_CONTENT'' (Text ''content cannot be empty'')"
  "body (payloadTooLarge n) = ErrorResponse ''PAYLOAD_TOO_LARGE'' (Text ''content exceeds maximum size'')"
  "body (invalidExpiry msg) = ErrorResponse ''INVALID_EXPIRY'' msg"
  by (simp_all add: internalError_def emptyContent_def payloadTooLarge_def invalidExpiry_def
      writeError_def)

lemma handleCreate_rejected_before_allocation:
  assumes h: "handleCreate cfg rnd now db r = (resp, db', calls)"
    and s: "statusCode resp = 413 \<or> (\<exists>msg. body resp = ErrorResponse ''EMPTY_CONTENT'' msg)"
  shows "db' = db \<and> (\<exists>k. calls = [ReadBody k])"
  using h s
  by (auto simp: handleCreate_def Let_def status_codes bodies
      split: if_splits sum.splits prod.splits)

lemma handleCreate_at_limit:
  assumes m: "1 \<le> MaxContentSize cfg" "MaxContentSize cfg < MaxInt64"
    and d: "resolve_expiry cfg (expiry_query r) = Inr d"
    and f: "\<not> body_fails r"
    and l: "int (length (body_bytes r)) = MaxContentSize cfg"
  shows "handleCreate cfg rnd now db r =
    (case Generate rnd of
       Inl err \<Rightarrow> (internalError, db, [ReadBody (length (body_bytes r)), GenerateID])
     | Inr sid \<Rightarrow>
        (case Create db sid (body_bytes r) (now + d) of
           (Inl err, db') \<Rightarrow>
             (internalError, db',
              [ReadBody (length (body_bytes r)), GenerateID, RepoCreate sid (body_bytes r) (now + d)])
         | (Inr snippet, db') \<Rightarrow>
             (\<lparr>statusCode = 201, headers = [(''Content-Type'', ''application/json'')],
               body = CreateResponse (ID snippet) (BaseURL cfg @ ''/'' @ ID snippet)
                        (ExpiresAt snippet)\<rparr>,
              db',
              [ReadBody (length (body_bytes r)), GenerateID, RepoCreate sid (body_bytes r) (now + d)])))"
proof -
  have w: "wrap64 (MaxContentSize cfg + 1) = MaxContentSize cfg + 1"
    using m by (rule limit_in_range)
  have "nat (MaxContentSize cfg + 1) = Suc (length (body_bytes r))" using l by simp
  then have c: "ReadAll_LimitReader (MaxContentSize cfg + 1) r = Inr (body_bytes r)"
    using f by (simp add: ReadAll_clean)
  have ne: "length (body_bytes r) \<noteq> 0" using m l by auto
  show ?thesis using d c w l ne
    by (simp add: handleCreate_def Let_def split: sum.splits prod.splits)
qed

lemma handleCreate_empty_iff:
  assumes m: "1 \<le> MaxContentSize cfg" "MaxContentSize cfg < MaxInt64"
    and h: "handleCreate cfg rnd now db r = (resp, db', calls)"
  shows "(\<exists>msg. body resp = ErrorResponse ''EMPTY_CONTENT'' msg) \<longleftrightarrow>
           (\<exists>d. resolve_expiry cfg (expiry_query r) = Inr d)
             \<and> \<not> body_fails r \<and> body_bytes r = []"
proof
  assume e: "\<exists>msg. body resp = ErrorResponse ''EMPTY_CONTENT'' msg"
  have w: "wrap64 (MaxContentSize cfg + 1) = MaxContentSize cfg + 1"
    using m by (rule limit_in_range)
  obtain d where d: "resolve_expiry cfg (expiry_query r) = Inr d"
    using h e by (cases "resolve_expiry cfg (expiry_query r)") (auto simp: handleCreate_def bodies)
  obtain c where c: "ReadAll_LimitReader (MaxContentSize cfg + 1) r = Inr c"
    using h e d w by (cases "ReadAll_LimitReader (MaxContentSize cfg + 1) r")
      (auto simp: handleCreate_def bodies)
  have "c = []"
    using h e d c w
    by (auto simp: handleCreate_def Let_def bodies split: if_splits sum.splits prod.splits)
  then have t: "take (nat (MaxContentSize cfg + 1)) (body_bytes r) = []"
      and f: "\<not> (body_fails r \<and> int (length (body_bytes r)) < MaxContentSize cfg + 1)"
    using c by (auto simp: ReadAll_LimitReader_def split: if_splits)
  have "0 < nat (MaxContentSize cfg + 1)" using m by simp
  then have b: "body_bytes r = []" using t by (cases "body_bytes r") auto
  then have "\<not> body_fails r" using f m by auto
  then show "(\<exists>d. resolve_expiry cfg (expiry_query r) = Inr d)
             \<and> \<not> body_fails r \<and> body_bytes r = []"
    using d b by blast
next
  assume a: "(\<exists>d. resolve_expiry cfg (expiry_query r) = Inr d)
             \<and> \<not> body_fails r \<and> body_bytes r = []"
  then obtain d where d: "resolve_expiry cfg (expiry_query r) = Inr d" by blast
  have c: "ReadAll_LimitReader (wrap64 (MaxContentSize cfg + 1)) r = Inr []"
    using a by (simp add: ReadAll_LimitReader_def)
  have "resp = emptyContent"
    using h d c m by (simp add: handleCreate_def)
  then show "\<exists>msg. body resp = ErrorResponse ''EMPTY_CONTENT'' msg"
    by (simp add: bodies)
qed

text \<open>
  C9 (as amended). With a configuration that \<^verbatim>\<open>Config.Validate\<close> admits (the maximum is at
  least 1) and a maximum below \<open>2^63 - 1\<close>: the 413 outcome is given exactly to bodies
  strictly longer than the maximum (once the expiry is resolved); the \<^verbatim>\<open>EMPTY_CONTENT\<close>
  outcome is given exactly to bodies that end at once with no byte; a body of exactly the
  maximum length passes both checks and reaches the identifier generator, and is created
  when generator and store succeed; the handler never takes more than maximum plus one
  bytes from the body; and with the 413 and \<^verbatim>\<open>EMPTY_CONTENT\<close> outcomes no identifier has
  been generated, no store call has been made and the database is unchanged.
\<close>

theorem handleCreate_size_limit:
  assumes "Config_Validate cfg" and "MaxContentSize cfg < MaxInt64"
    and "handleCreate cfg rnd now db r = (resp, db', calls)"
  shows "(statusCode resp = 413 \<longleftrightarrow>
            (\<exists>d. resolve_expiry cfg (expiry_query r) = Inr d)
              \<and> MaxContentSize cfg < int (length (body_bytes r)))
       \<and> ((\<exists>msg. body resp = ErrorResponse ''EMPTY_CONTENT'' msg) \<longleftrightarrow>
            (\<exists>d. resolve_expiry cfg (expiry_query r) = Inr d)
              \<and> \<not> body_fails r \<and> body_bytes r = [])
       \<and> (\<forall>d. resolve_expiry cfg (expiry_query r) = Inr d \<and> \<not> body_fails r
                \<and> int (length (body_bytes r)) = MaxContentSize cfg \<longrightarrow>
              GenerateID \<in> set calls
              \<and> (statusCode resp = 201 \<longleftrightarrow>
                   (\<exists>sid sn. Generate rnd = Inr sid
                      \<and> fst (Create db sid (body_bytes r) (now + d)) = Inr sn)))
       \<and> (\<forall>k. ReadBody k \<in> set calls \<longrightarrow> int k \<le> MaxContentSize cfg + 1)
       \<and> (statusCode resp = 413 \<or> (\<exists>msg. body resp = ErrorResponse ''EMPTY_CONTENT'' msg) \<longrightarrow>
              db' = db \<and> GenerateID \<notin> set calls
              \<and> (\<forall>sid c e. RepoCreate sid c e \<notin> set calls))"
proof -
  have m: "1 \<le> MaxContentSize cfg" "MaxContentSize cfg < MaxInt64"
    using assms(1,2) by (simp_all add: Config_Validate_def)
  have p1: "statusCode resp = 413 \<longleftrightarrow>
            (\<exists>d. resolve_expiry cfg (expiry_query r) = Inr d)
              \<and> MaxContentSize cfg < int (length (body_bytes r))"
    using m assms(3) by (rule handleCreate_too_large_iff)
  have p1': "(\<exists>msg. body resp = ErrorResponse ''EMPTY_CONTENT'' msg) \<longleftrightarrow>
            (\<exists>d. resolve_expiry cfg (expiry_query r) = Inr d)
              \<and> \<not> body_fails r \<and> body_bytes r = []"
    using m assms(3) by (rule handleCreate_empty_iff)
  have p2: "GenerateID \<in> set calls
              \<and> (statusCode resp = 201 \<longleftrightarrow>
                   (\<exists>sid sn. Generate rnd = Inr sid
                      \<and> fst (Create db sid (body_bytes r) (now + d)) = Inr sn))"
    if "resolve_expiry cfg (expiry_query r) = Inr d \<and> \<not> body_fails r
                \<and> int (length (body_bytes r)) = MaxContentSize cfg" for d
  proof -
    from that have d: "resolve_expiry cfg (expiry_query r) = Inr d" and f: "\<not> body_fails r"
      and l: "int (length (body_bytes r)) = MaxContentSize cfg" by simp_all
    note eq = handleCreate_at_limit [OF m d f l, of rnd now db]
    show ?thesis
    proof (cases "Generate rnd")
      case (Inl e)
      then show ?thesis using eq assms(3) by (auto simp: status_codes)
    next
      case (Inr sid)
      obtain res db1 where cr: "Create db sid (body_bytes r) (now + d) = (res, db1)"
        by (cases "Create db sid (body_bytes r) (now + d)") auto
      show ?thesis
      proof (cases res)
        case (Inl e)
        then show ?thesis using eq assms(3) Inr cr by (auto simp: status_codes)
      next
        case sn: (Inr sn)
        then show ?thesis using eq assms(3) Inr cr by auto
      qed
    qed
  qed
  have p3: "\<forall>k. ReadBody k \<in> set calls \<longrightarrow> int k \<le> MaxContentSize cfg + 1"
    using m assms(3) by (blast intro: handleCreate_read_bound)
  have p4: "db' = db \<and> GenerateID \<notin> set calls \<and> (\<forall>sid c e. RepoCreate sid c e \<notin> set calls)"
    if "statusCode resp = 413 \<or> (\<exists>msg. body resp = ErrorResponse ''EMPTY_CONTENT'' msg)"
  proof -
    from handleCreate_rejected_before_allocation [OF assms(3) that]
    obtain k where "db' = db" "calls = [ReadBody k]" by blast
    then show ?thesis by simp
  qed
  show ?thesis using p1 p1' p2 p3 p4 by blast
qed

lemma example_too_large:
  "handleCreate example_cfg example_rnd 1000 empty_db
     \<lparr>expiry_query = [], body_bytes = ''hello world'', body_fails = False\<rparr>
   = (payloadTooLarge 5, empty_db, [ReadBody 6])"
  by (simp add: handleCreate_def resolve_expiry_def example_cfg_def ReadAll_LimitReader_def
      wrap64_def)

theorem handleCreate_size_limit_witness:
  "Config_Validate example_cfg \<and> MaxContentSize example_cfg < MaxInt64
     \<and> int (length (body_bytes (hello_request ''10m''))) = MaxContentSize example_cfg
     \<and> statusCode (fst (handleCreate example_cfg example_rnd 1000 empty_db (hello_request ''10m''))) = 201
     \<and> GenerateID \<in> set (snd (snd (handleCreate example_cfg example_rnd 1000 empty_db
            (hello_request ''10m''))))
     \<and> int 5 \<le> MaxContentSize example_cfg + 1"
proof -
  have v: "Config_Validate example_cfg"
    by (simp add: Config_Validate_def example_cfg_def Hour_def Minute_def)
  have m: "MaxContentSize example_cfg < MaxInt64"
    by (simp add: example_cfg_def MaxInt64_def)
  note t = handleCreate_size_limit [OF v m example_created]
  have l: "int (length (body_bytes (hello_request ''10m''))) = MaxContentSize example_cfg"
    by (simp add: hello_request_def example_cfg_def)
  have s: "statusCode (fst (handleCreate example_cfg example_rnd 1000 empty_db
      (hello_request ''10m''))) = 201"
    by (simp add: example_created)
  have c: "snd (snd (handleCreate example_cfg example_rnd 1000 empty_db (hello_request ''10m'')))
      = [ReadBody 5, GenerateID, RepoCreate ''07ELSZgnu18F'' ''hello'' 600000001000]"
    by (simp add: example_created)
  from t have "\<forall>k. ReadBody k \<in> set [ReadBody 5, GenerateID,
        RepoCreate ''07ELSZgnu18F'' ''hello'' 600000001000] \<longrightarrow> int k \<le> MaxContentSize example_cfg + 1"
    by blast
  then have "int 5 \<le> MaxContentSize example_cfg + 1" by simp
  moreover have "GenerateID \<in> set (snd (snd (handleCreate example_cfg example_rnd 1000 empty_db
            (hello_request ''10m''))))"
    unfolding c by simp
  ultimately show ?thesis using v m l s by blast
qed

text \<open>
  C9 as stated fails for the largest maximum \<^verbatim>\<open>Config.Validate\<close> admits, \<open>2^63 - 1\<close>: the
  \<^verbatim>\<open>int64\<close> sum of the maximum and one wraps to the least \<^verbatim>\<open>int64\<close>, the limited reader
  takes no byte, and a body of exactly the maximum length, like the five bytes \<^verbatim>\<open>hello\<close>, is
  answered \<^verbatim>\<open>EMPTY_CONTENT\<close>.
\<close>

theorem handleCreate_size_limit_counterexample:
  "Config_Validate huge_cfg \<and> MaxContentSize huge_cfg = MaxInt64
     \<and> int (length (replicate (nat MaxInt64) (CHR ''a''))) = MaxContentSize huge_cfg
     \<and> handleCreate huge_cfg example_rnd 1000 empty_db
          \<lparr>expiry_query = [], body_bytes = replicate (nat MaxInt64) (CHR ''a''),
           body_fails = False\<rparr>
        = (emptyContent, empty_db, [ReadBody 0])
     \<and> handleCreate huge_cfg example_rnd 1000 empty_db (hello_request [])
        = (emptyContent, empty_db, [ReadBody 0])"
proof -
  have v: "Config_Validate huge_cfg"
    by (simp add: Config_Validate_def huge_cfg_def example_cfg_def Hour_def Minute_def
        MaxInt64_def)
  have mx: "MaxContentSize huge_cfg = MaxInt64" by (simp add: huge_cfg_def)
  have w: "wrap64 (MaxInt64 + 1) = MinInt64"
    by (simp add: wrap64_def MaxInt64_def MinInt64_def)
  have n: "nat MinInt64 = 0" by (simp add: MinInt64_def)
  have e: "resolve_expiry huge_cfg [] = Inr (DefaultExpiry huge_cfg)"
    by (simp add: resolve_expiry_def)
  have rd: "ReadAll_LimitReader MinInt64 \<lparr>expiry_query = [], body_bytes = bs, body_fails = False\<rparr>
      = Inr []" for bs
    by (simp add: ReadAll_LimitReader_def n)
  have pos: "\<not> MaxInt64 < 0" by (simp add: MaxInt64_def)
  have h: "handleCreate huge_cfg example_rnd 1000 empty_db
      \<lparr>expiry_query = [], body_bytes = bs, body_fails = False\<rparr>
      = (emptyContent, empty_db, [ReadBody 0])" for bs
    using e rd [of bs] pos by (simp add: handleCreate_def mx w)
  have l: "int (length (replicate (nat MaxInt64) (CHR ''a''))) = MaxContentSize huge_cfg"
    by (simp add: mx MaxInt64_def)
  show ?thesis using v mx l h by (simp add: hello_request_def)
qed

section \<open>The cleanup worker: proofs\<close>

lemma exec_snoc:
  "exec repo (as @ [a]) w = (case exec repo as w of None \<Rightarrow> None | Some w' \<Rightarrow> step repo a w')"
  by (induction as arbitrary: w) (auto split: option.splits)

lemma cleanup_fields:
  "sweeps (cleanup repo w) = Suc (sweeps w)"
  "runners (cleanup repo w) = runners w"
  "stopper (cleanup repo w) = stopper w"
  "stopCh (cleanup repo w) = stopCh w"
  "doneCh (cleanup repo w) = doneCh w"
  "ctxDone (cleanup repo w) = ctxDone w"
  "interval (cleanup repo w) = interval w"
  by (simp_all add: cleanup_def split: sum.splits)


lemma run_return_fields:
  "sweeps (run_return msg i w) = sweeps w"
  "stopper (run_return msg i w) = stopper w"
  "stopCh (run_return msg i w) = stopCh w"
  "doneCh (run_return msg i w) = Closed"
  "interval (run_return msg i w) = interval w"
  "length (runners (run_return msg i w)) = length (runners w)"
  by (cases "doneCh w"; simp add: run_return_def)+


lemma run_startup_fields:
  "stopper (run_startup repo i w) = stopper w"
  "stopCh (run_startup repo i w) = stopCh w"
  "interval (run_startup repo i w) = interval w"
  "length (runners (run_startup repo i w)) = length (runners w)"
  "doneCh w = Closed \<Longrightarrow> doneCh (run_startup repo i w) = Closed"
  by (simp_all add: run_startup_def cleanup_fields)



lemma step_Start:
  "step repo Start w = Some w' \<Longrightarrow> w' = w\<lparr>runners := runners w @ [Startup]\<rparr>"
  by (simp add: step.simps)

lemma step_RunStartup:
  "step repo (RunStartup i) w = Some w' \<Longrightarrow>
   i < length (runners w) \<and> runners w ! i = Startup \<and> w' = run_startup repo i w"
  by (simp add: step.simps split: if_splits)

lemma step_SelectTick:
  "step repo (SelectTick i) w = Some w' \<Longrightarrow> in_select (runners w) i \<and> w' = cleanup repo w"
  by (simp add: step.simps split: if_splits)

lemma step_SelectCtxDone:
  "step repo (SelectCtxDone i) w = Some w' \<Longrightarrow>
   in_select (runners w) i \<and> ctxDone w
     \<and> w' = run_return ''cleanup worker stopping due to context cancellation'' i w"
  by (simp add: step.simps split: if_splits)

lemma step_SelectStop:
  "step repo (SelectStop i) w = Some w' \<Longrightarrow>
   in_select (runners w) i \<and> stopCh w = Closed \<and> w' = run_return ''cleanup worker stopping'' i w"
  by (simp add: step.simps split: if_splits)

lemma step_CancelCtx:
  "step repo CancelCtx w = Some w' \<Longrightarrow> w' = w\<lparr>ctxDone := True\<rparr>"
  by (simp add: step.simps)

lemma step_StopClose:
  assumes "step repo StopClose w = Some w'"
  shows "\<exists>k. stopper w = Outside k
           \<and> (stopCh w = Open \<and> w' = w\<lparr>stopCh := Closed, stopper := Blocked k\<rparr>
              \<or> stopCh w = Closed \<and> w' = w\<lparr>stopper := StopPanicked k\<rparr>)"
proof (cases "stopper w")
  case (Outside k)
  then show ?thesis using assms
    by (cases "stopCh w") (simp_all add: step.simps)
next
  case (Blocked k)
  then show ?thesis using assms by (simp add: step.simps)
next
  case (StopPanicked k)
  then show ?thesis using assms by (simp add: step.simps)
qed

lemma step_StopReturn:
  assumes "step repo StopReturn w = Some w'"
  shows "\<exists>k. stopper w = Blocked k \<and> doneCh w = Closed \<and> w' = w\<lparr>stopper := Outside (Suc k)\<rparr>"
proof (cases "stopper w")
  case (Outside k)
  then show ?thesis using assms by (simp add: step.simps)
next
  case (Blocked k)
  then show ?thesis using assms by (simp add: step.simps split: if_splits)
next
  case (StopPanicked k)
  then show ?thesis using assms by (simp add: step.simps)
qed

lemma worker_inv_init: "worker_inv d [] (NewCleanupWorker d)"
  by (simp add: worker_inv_def NewCleanupWorker_def)

lemma worker_inv_step:
  assumes i: "worker_inv d acts w" and s: "step repo a w = Some w'"
  shows "worker_inv d (acts @ [a]) w'"
proof (cases a)
  case Start
  with s have "w' = w\<lparr>runners := runners w @ [Startup]\<rparr>" using step_Start by blast
  then show ?thesis using i Start by (simp add: worker_inv_def)
next
  case (RunStartup j)
  with s have "w' = run_startup repo j w" using step_RunStartup by blast
  then show ?thesis using i RunStartup by (simp add: worker_inv_def run_startup_fields)
next
  case (SelectCtxDone j)
  with s have "w' = run_return ''cleanup worker stopping due to context cancellation'' j w"
    using step_SelectCtxDone by blast
  then show ?thesis using i SelectCtxDone by (simp add: worker_inv_def run_return_fields)
next
  case (SelectStop j)
  with s have "w' = run_return ''cleanup worker stopping'' j w"
    using step_SelectStop by blast
  then show ?thesis using i SelectStop by (simp add: worker_inv_def run_return_fields)
next
  case (SelectTick j)
  with s have "w' = cleanup repo w" using step_SelectTick by blast
  then show ?thesis using i SelectTick by (simp add: worker_inv_def cleanup_fields)
next
  case CancelCtx
  with s have "w' = w\<lparr>ctxDone := True\<rparr>" using step_CancelCtx by blast
  then show ?thesis using i CancelCtx by (simp add: worker_inv_def)
next
  case StopClose
  with s obtain k where k: "stopper w = Outside k"
    and d: "stopCh w = Open \<and> w' = w\<lparr>stopCh := Closed, stopper := Blocked k\<rparr>
              \<or> stopCh w = Closed \<and> w' = w\<lparr>stopper := StopPanicked k\<rparr>"
    using step_StopClose by blast
  from d show ?thesis
  proof
    assume "stopCh w = Open \<and> w' = w\<lparr>stopCh := Closed, stopper := Blocked k\<rparr>"
    then show ?thesis using i k StopClose by (simp add: worker_inv_def)
  next
    assume "stopCh w = Closed \<and> w' = w\<lparr>stopper := StopPanicked k\<rparr>"
    then show ?thesis using i k StopClose by (simp add: worker_inv_def)
  qed
next
  case StopReturn
  with s obtain k where "stopper w = Blocked k" "doneCh w = Closed"
    "w' = w\<lparr>stopper := Outside (Suc k)\<rparr>"
    using step_StopReturn by blast
  then show ?thesis using i StopReturn by (simp add: worker_inv_def)
qed

lemma worker_inv_exec:
  "exec repo acts (NewCleanupWorker d) = Some w \<Longrightarrow> worker_inv d acts w"
proof (induction acts arbitrary: w rule: rev_induct)
  case Nil
  then have "w = NewCleanupWorker d" by simp
  then show ?case by (simp add: worker_inv_init)
next
  case (snoc a as)
  then obtain w0 where w0: "exec repo as (NewCleanupWorker d) = Some w0" "step repo a w0 = Some w"
    by (auto simp: exec_snoc split: option.splits)
  then have "worker_inv d as w0" using snoc.IH by simp
  then show ?case using w0(2) by (rule worker_inv_step)
qed


lemma in_select_single:
  "in_select [g] j \<longleftrightarrow> j = 0 \<and> (\<exists>p. g = InSelect p)"
  by (cases g) auto











text \<open>
  C10. In every execution of a new worker, once a call of \<^verbatim>\<open>Stop\<close> has returned, the next
  call of \<^verbatim>\<open>Stop\<close> panics at \<^verbatim>\<open>close(w.stopCh)\<close>: the channel made by \<^verbatim>\<open>NewCleanupWorker\<close>
  is already closed.
\<close>

theorem Stop_twice_panics:
  assumes "exec repo acts (NewCleanupWorker d) = Some w" and "stopper w = Outside (Suc k)"
  shows "step repo StopClose w = Some (w\<lparr>stopper := StopPanicked (Suc k)\<rparr>)"
proof -
  have "worker_inv d acts w" using assms(1) by (rule worker_inv_exec)
  then have "stopCh w = Closed"
    using assms(2) by (simp add: worker_inv_def)
  then show ?thesis using assms(2) by (simp add: step.simps)
qed

lemma example_stop:
  "exec failing_repo [Start, RunStartup 0, StopClose, SelectStop 0, StopReturn]
     (NewCleanupWorker 300000000000)
   = Some \<lparr>interval = 300000000000, stopCh = Closed, doneCh = Closed, ctxDone = False,
           runners = [Exited], stopper = Outside (Suc 0), sweeps = 1,
           logged = [Info ''cleanup worker stopping'']\<rparr>"
  by (simp add: step.simps NewCleanupWorker_def cleanup_def failing_repo_def run_return_def
      run_startup_def)

theorem Stop_twice_panics_witness:
  "exec failing_repo [Start, RunStartup 0, StopClose, SelectStop 0, StopReturn]
     (NewCleanupWorker 300000000000)
   = Some \<lparr>interval = 300000000000, stopCh = Closed, doneCh = Closed, ctxDone = False,
           runners = [Exited], stopper = Outside (Suc 0), sweeps = 1,
           logged = [Info ''cleanup worker stopping'']\<rparr>
   \<and> exec failing_repo [Start, RunStartup 0, StopClose, SelectStop 0, StopReturn, StopClose]
        (NewCleanupWorker 300000000000)
   = Some \<lparr>interval = 300000000000, stopCh = Closed, doneCh = Closed, ctxDone = False,
           runners = [Exited], stopper = StopPanicked (Suc 0), sweeps = 1,
           logged = [Info ''cleanup worker stopping'']\<rparr>"
proof -
  have s: "stopper \<lparr>interval = 300000000000, stopCh = Closed, doneCh = Closed, ctxDone = False,
           runners = [Exited], stopper = Outside (Suc 0), sweeps = 1,
           logged = [Info ''cleanup worker stopping'']\<rparr>
       = Outside (Suc 0)" by simp
  note t = Stop_twice_panics [OF example_stop s]
  have "exec failing_repo
        ([Start, RunStartup 0, StopClose, SelectStop 0, StopReturn] @ [StopClose])
        (NewCleanupWorker 300000000000)
   = Some \<lparr>interval = 300000000000, stopCh = Closed, doneCh = Closed, ctxDone = False,
           runners = [Exited], stopper = StopPanicked (Suc 0), sweeps = 1,
           logged = [Info ''cleanup worker stopping'']\<rparr>"
    unfolding exec_snoc example_stop using t by simp
  then show ?thesis using example_stop by simp
qed

end
